theory Spec2Isabelle
  imports Main "HOL-Library.Char_ord" "HOL-Library.List_Lexorder"
    "HOL-Library.AList" "HOL-Library.Word"
begin

section \<open>Go library functions the handlers call\<close>

text \<open>
  Go strings are byte sequences; \<^typ>\<open>string\<close> is a list of 8-bit characters. With
  \<open>Char_ord\<close> and \<open>List_Lexorder\<close> the order \<open><\<close> on \<^typ>\<open>string\<close> is the byte-wise
  lexicographic order, which is what Go's \<^verbatim>\<open>>\<close> on strings computes (main.go:194).
\<close>

text \<open>\<^verbatim>\<open>strings.HasPrefix(s, prefix)\<close>: whether \<open>s\<close> begins with \<open>prefix\<close>.\<close>

fun HasPrefix :: "string \<Rightarrow> string \<Rightarrow> bool" where
  "HasPrefix s [] = True"
| "HasPrefix [] (p # ps) = False"
| "HasPrefix (c # s) (p # ps) = (c = p \<and> HasPrefix s ps)"

text \<open>
  \<^verbatim>\<open>strings.Contains(s, substr)\<close>: whether \<open>substr\<close> occurs in \<open>s\<close> as a contiguous
  run of bytes, that is, whether \<open>s\<close> from some position on begins with it. The empty
  string occurs in every string.
\<close>

fun Contains :: "string \<Rightarrow> string \<Rightarrow> bool" where
  "Contains [] substr = (substr = [])"
| "Contains (c # s) substr = (HasPrefix (c # s) substr \<or> Contains s substr)"

text \<open>
  \<^verbatim>\<open>strings.Split(s, sep)\<close> for a one-byte separator (the only call, main.go:160, passes
  \<^verbatim>\<open>"/"\<close>): the pieces between the separators, in order. A string without the separator
  gives one piece, the string itself; the empty string gives one empty piece.
\<close>

fun Split :: "string \<Rightarrow> char \<Rightarrow> string list" where
  "Split [] sep = [[]]"
| "Split (c # s) sep =
     (if c = sep then [] # Split s sep
      else (case Split s sep of [] \<Rightarrow> [[c]] | w # ws \<Rightarrow> (c # w) # ws))"

text \<open>
  \<^verbatim>\<open>time.Duration\<close> is an int64 count of nanoseconds; the constants are those of
  package \<^verbatim>\<open>time\<close>.
\<close>

type_synonym Duration = "64 word"

definition Nanosecond :: Duration where "Nanosecond = 1"
definition Microsecond :: Duration where "Microsecond = 1000 * Nanosecond"
definition Millisecond :: Duration where "Millisecond = 1000 * Microsecond"
definition Second :: Duration where "Second = 1000 * Millisecond"
definition Minute :: Duration where "Minute = 60 * Second"

text \<open>\<^verbatim>\<open>net/http\<close> status codes.\<close>

abbreviation StatusOK :: nat where "StatusOK \<equiv> 200"
abbreviation StatusNotFound :: nat where "StatusNotFound \<equiv> 404"
abbreviation StatusInternalServerError :: nat where "StatusInternalServerError \<equiv> 500"

section \<open>Data\<close>

text \<open>\<^verbatim>\<open>time.Time\<close>, passed through and never inspected: seconds since the epoch.\<close>

type_synonym Time = int

text \<open>\<^verbatim>\<open>s3.Object\<close>, with the three fields the handlers read.\<close>

record Object =
  Key :: string
  LastModified :: Time
  Size :: "64 word"

record ListObjectsV2Output =
  Contents :: "Object list"

text \<open>
  A Go \<^verbatim>\<open>error\<close> value: the text of \<^verbatim>\<open>err.Error()\<close>, and, when the value is an
  \<^verbatim>\<open>awserr.Error\<close> (the type assertion of main.go:237 succeeds), its \<^verbatim>\<open>Code()\<close>.
\<close>

record error =
  Error :: string
  Code :: "string option"

text \<open>\<^verbatim>\<open>s3.ErrCodeNoSuchKey\<close>.\<close>

definition ErrCodeNoSuchKey :: string where
  "ErrCodeNoSuchKey = ''NoSuchKey''"

text \<open>The configuration file (main.go:31-38).\<close>

record Config =
  FilePath :: string
  BucketName :: string
  AccessKey :: string
  SecretKey :: string
  Endpoint :: string
  Region :: string

text \<open>A presign request as the store sees it: bucket, key and the expiry asked for.\<close>

record PresignRequest =
  req_Bucket :: string
  req_Key :: string
  req_expire :: Duration

text \<open>
  The object store behind an \<^verbatim>\<open>*s3.S3\<close> client: what each call of the handlers
  answers. It is the environment of the handlers, not code of the repository, so it is
  a parameter of every handler.
  \<^item> \<open>ListObjectsV2 svc bucket prefix\<close>: one listing request; Go's two results, the
    output (the client allocates it before sending, so it is there on failure too) and
    the error (\<open>None\<close> is \<^verbatim>\<open>nil\<close>). It answers one page.
  \<^item> \<open>ListPages svc bucket prefix\<close>: the pages that following the continuation tokens
    delivers, in order, and the error of the request that failed, if one did.
  \<^item> \<open>Presign svc bucket key expire\<close>: \<^verbatim>\<open>GetObjectRequest\<close> followed by
    \<^verbatim>\<open>req.Presign(expire)\<close>: the URL or the error.
  \<^item> \<open>GetObject svc bucket key\<close>: the error, or the object, whose body
    \<^verbatim>\<open>ioutil.ReadAll\<close> reads to the end or fails on.
\<close>

record S3 =
  ListObjectsV2 :: "string \<Rightarrow> string option \<Rightarrow> ListObjectsV2Output \<times> error option"
  ListPages :: "string \<Rightarrow> string option \<Rightarrow> ListObjectsV2Output list \<times> error option"
  Presign :: "string \<Rightarrow> string \<Rightarrow> Duration \<Rightarrow> error + string"
  GetObject :: "string \<Rightarrow> string \<Rightarrow> error + (error + string)"

text \<open>
  One entry of the list \<^verbatim>\<open>listFiles\<close> answers (main.go:128-133); \<open>size'\<close> is the
  \<^verbatim>\<open>"size"\<close> entry.
\<close>

record File =
  last_modified :: Time
  size' :: "64 word"
  filename :: string
  url :: string

text \<open>
  What a handler hands to \<^verbatim>\<open>c.JSON(code, obj)\<close>: the status code and the object.
  \<open>H_error m\<close> is \<^verbatim>\<open>gin.H{"error": m}\<close>, \<open>H_message m\<close> is \<^verbatim>\<open>gin.H{"message": m}\<close>,
  \<open>H_dirs ds\<close> is \<^verbatim>\<open>gin.H{"dirs": ds}\<close>, \<open>H_latest u s t\<close> is
  \<^verbatim>\<open>gin.H{"url": u, "size": s, "last_modified": t}\<close>, \<open>Files fs\<close> is the slice of
  \<^verbatim>\<open>listFiles\<close> and \<open>Data d\<close> the decoded document of \<^verbatim>\<open>snapshotInfo\<close>.
\<close>

datatype 'j body =
    H_error string
  | H_message string
  | H_dirs "string list"
  | H_latest string "64 word" Time
  | Files "File list"
  | Data 'j

datatype 'j response = JSON nat "'j body"

section \<open>listFiles (main.go:101-139)\<close>

text \<open>
  The loop over \<^verbatim>\<open>resp.Contents\<close>: \<open>files\<close> is the slice built so far, \<open>log\<close> the
  presign requests made so far. A presign error leaves the loop at once.
\<close>

fun listFiles_loop ::
  "S3 \<Rightarrow> Config \<Rightarrow> string \<Rightarrow> string \<Rightarrow> Object list \<Rightarrow> File list \<Rightarrow> PresignRequest list
    \<Rightarrow> (error + File list) \<times> PresignRequest list" where
  "listFiles_loop svc config protocol network [] files log = (Inr files, log)"
| "listFiles_loop svc config protocol network (item # items) files log =
     (if Contains (Key item) protocol \<and> Contains (Key item) network then
        (case Presign svc (BucketName config) (Key item) (15 * Minute) of
           Inl err \<Rightarrow>
             (Inl err,
              log @ [\<lparr>req_Bucket = BucketName config, req_Key = Key item,
                       req_expire = 15 * Minute\<rparr>])
         | Inr urlStr \<Rightarrow>
             listFiles_loop svc config protocol network items
               (files @ [\<lparr>last_modified = LastModified item, size' = Size item,
                           filename = Key item, url = urlStr\<rparr>])
               (log @ [\<lparr>req_Bucket = BucketName config, req_Key = Key item,
                         req_expire = 15 * Minute\<rparr>]))
      else listFiles_loop svc config protocol network items files log)"

definition listFiles ::
  "S3 \<Rightarrow> Config \<Rightarrow> string \<Rightarrow> string \<Rightarrow> 'j response \<times> PresignRequest list" where
  "listFiles svc config protocol network =
     (case ListObjectsV2 svc (BucketName config) (Some (protocol @ ''/'' @ network @ ''/'')) of
        (resp, Some err) \<Rightarrow> (JSON StatusInternalServerError (H_error (Error err)), [])
      | (resp, None) \<Rightarrow>
          (case listFiles_loop svc config protocol network (Contents resp) [] [] of
             (Inl err, log) \<Rightarrow> (JSON StatusInternalServerError (H_error (Error err)), log)
           | (Inr files, log) \<Rightarrow> (JSON StatusOK (Files files), log)))"

section \<open>listKeys (main.go:141-177)\<close>

text \<open>
  \<^verbatim>\<open>dirMap\<close> is a Go map from string to bool: an association list with one entry per
  key (\<open>AList.update\<close> overwrites the entry of a key that is there). The loop over
  \<^verbatim>\<open>resp.Contents\<close> of main.go:158-167.
\<close>

fun dirMap_loop :: "Object list \<Rightarrow> (string \<times> bool) list \<Rightarrow> (string \<times> bool) list" where
  "dirMap_loop [] dirMap = dirMap"
| "dirMap_loop (item # items) dirMap =
     (let key = Key item; splitKey = Split key CHR ''/'' in
        if length splitKey \<ge> 2 then
          dirMap_loop items (AList.update (splitKey ! 0 @ ''/'' @ splitKey ! 1) True dirMap)
        else dirMap_loop items dirMap)"

text \<open>
  \<^verbatim>\<open>for dir := range dirMap\<close> (main.go:171-173) visits every key of the map once, in
  an order Go leaves open: \<open>range_keys m ks\<close> says that \<open>ks\<close> is one of the orders.
\<close>

definition range_keys :: "(string \<times> bool) list \<Rightarrow> string list \<Rightarrow> bool" where
  "range_keys m ks = (distinct ks \<and> set ks = set (map fst m))"

text \<open>
  The handler makes a client of its own from a default session and lists the bucket
  with no prefix. Both errors are dropped (\<^verbatim>\<open>sess, _ :=\<close>, \<^verbatim>\<open>resp, _ :=\<close>), so the
  handler goes on with the output whatever the error is. Since the order of \<^verbatim>\<open>dirs\<close>
  is open, the handler is a relation: \<open>listKeys s3Svc config out\<close> says that \<open>out\<close> is
  a response it can give. (The \<^verbatim>\<open>fmt.Printf\<close> of main.go:153 writes to the process's
  standard output and is not part of the response.)
\<close>

definition listKeys :: "S3 \<Rightarrow> Config \<Rightarrow> 'j response \<Rightarrow> bool" where
  "listKeys s3Svc config out =
     (case ListObjectsV2 s3Svc (BucketName config) None of
        (resp, _) \<Rightarrow>
          (case out of
             JSON code (H_dirs dirs) \<Rightarrow>
               code = StatusOK \<and> range_keys (dirMap_loop (Contents resp) []) dirs
           | _ \<Rightarrow> False))"

section \<open>latestSnapshot (main.go:179-223)\<close>

text \<open>
  The loop of the page callback (main.go:193-197) over the objects of one page;
  \<open>latestObject\<close> is the captured variable, \<open>None\<close> for \<^verbatim>\<open>nil\<close>.
\<close>

fun latest_in_page :: "string \<Rightarrow> Object list \<Rightarrow> Object option \<Rightarrow> Object option" where
  "latest_in_page prefix [] latestObject = latestObject"
| "latest_in_page prefix (item # items) latestObject =
     (if Key item \<noteq> prefix @ ''snapshot-latest.json'' \<and>
         (case latestObject of None \<Rightarrow> True | Some l \<Rightarrow> Key item > Key l)
      then latest_in_page prefix items (Some item)
      else latest_in_page prefix items latestObject)"

text \<open>The callback: it scans the page and returns \<^verbatim>\<open>true\<close> (go on with the next page).\<close>

definition page_callback ::
  "string \<Rightarrow> ListObjectsV2Output \<Rightarrow> bool \<Rightarrow> Object option \<Rightarrow> Object option \<times> bool" where
  "page_callback prefix page lastPage latestObject =
     (latest_in_page prefix (Contents page) latestObject, True)"

text \<open>
  \<^verbatim>\<open>ListObjectsV2Pages\<close> of the client: it calls \<open>fn\<close> on every page the store
  delivers, in order, until \<open>fn\<close> returns \<^verbatim>\<open>false\<close> or the pages end, and returns
  the error of the request that failed. The state \<open>s\<close> is what \<open>fn\<close> captures.
\<close>

fun EachPage ::
  "(ListObjectsV2Output \<Rightarrow> bool \<Rightarrow> 's \<Rightarrow> 's \<times> bool) \<Rightarrow> ListObjectsV2Output list \<Rightarrow> error option
    \<Rightarrow> 's \<Rightarrow> 's \<times> error option" where
  "EachPage fn [] err s = (s, err)"
| "EachPage fn (page # pages) err s =
     (case fn page (pages = [] \<and> err = None) s of
        (s', cont) \<Rightarrow> if cont then EachPage fn pages err s' else (s', None))"

definition ListObjectsV2Pages ::
  "S3 \<Rightarrow> string \<Rightarrow> string option \<Rightarrow> (ListObjectsV2Output \<Rightarrow> bool \<Rightarrow> 's \<Rightarrow> 's \<times> bool) \<Rightarrow> 's
    \<Rightarrow> 's \<times> error option" where
  "ListObjectsV2Pages svc bucket prefix fn s =
     (case ListPages svc bucket prefix of (pages, err) \<Rightarrow> EachPage fn pages err s)"

text \<open>The value of \<^verbatim>\<open>latestObject\<close> and of \<^verbatim>\<open>err\<close> after main.go:189-199.\<close>

definition scan_snapshots :: "S3 \<Rightarrow> Config \<Rightarrow> string \<Rightarrow> string \<Rightarrow> Object option \<times> error option" where
  "scan_snapshots svc config protocol network =
     (let prefix = protocol @ ''/'' @ network @ ''/'' in
        ListObjectsV2Pages svc (BucketName config) (Some prefix) (page_callback prefix) None)"

definition latestSnapshot ::
  "S3 \<Rightarrow> Config \<Rightarrow> string \<Rightarrow> string \<Rightarrow> 'j response \<times> PresignRequest list" where
  "latestSnapshot svc config protocol network =
     (case scan_snapshots svc config protocol network of
        (latestObject, Some err) \<Rightarrow> (JSON StatusInternalServerError (H_error (Error err)), [])
      | (None, None) \<Rightarrow> (JSON StatusNotFound (H_message ''No snapshots found''), [])
      | (Some obj, None) \<Rightarrow>
          (case Presign svc (BucketName config) (Key obj) (15 * Minute) of
             Inl err \<Rightarrow>
               (JSON StatusInternalServerError (H_error (Error err)),
                [\<lparr>req_Bucket = BucketName config, req_Key = Key obj,
                  req_expire = 15 * Minute\<rparr>])
           | Inr urlStr \<Rightarrow>
               (JSON StatusOK (H_latest urlStr (Size obj) (LastModified obj)),
                [\<lparr>req_Bucket = BucketName config, req_Key = Key obj,
                  req_expire = 15 * Minute\<rparr>])))"

section \<open>snapshotInfo (main.go:225-264)\<close>

text \<open>
  \<open>Unmarshal\<close> is \<^verbatim>\<open>json.Unmarshal\<close> into an \<^verbatim>\<open>interface{}\<close>: the decoded document
  (of a type \<open>'j\<close> the handler never looks into) or the error. It is a parameter, as
  the store is.
\<close>

definition snapshotInfo ::
  "S3 \<Rightarrow> Config \<Rightarrow> (string \<Rightarrow> error + 'j) \<Rightarrow> string \<Rightarrow> string \<Rightarrow> 'j response" where
  "snapshotInfo svc config Unmarshal protocol network =
     (case GetObject svc (BucketName config)
             (protocol @ ''/'' @ network @ ''/snapshot-latest.json'') of
        Inl err \<Rightarrow>
          (if Code err = Some ErrCodeNoSuchKey
           then JSON StatusNotFound (H_message ''Snapshot not found'')
           else JSON StatusInternalServerError (H_error (Error err)))
      | Inr result \<Rightarrow>
          (case result of
             Inl err \<Rightarrow> JSON StatusInternalServerError (H_error (Error err))
           | Inr body \<Rightarrow>
               (case Unmarshal body of
                  Inl err \<Rightarrow> JSON StatusInternalServerError (H_error (Error err))
                | Inr data \<Rightarrow> JSON StatusOK (Data data))))"

section \<open>Example stores\<close>

text \<open>
  A bucket with the objects of the specification's examples, in the order a store lists
  them (by key). The older-named snapshot carries the later modification time.
\<close>

definition example_config :: Config where
  "example_config =
     \<lparr>FilePath = ''/data'', BucketName = ''snapshots'', AccessKey = ''AK'',
      SecretKey = ''SK'', Endpoint = ''https://s3.example.org'', Region = ''eu-west-1''\<rparr>"

definition example_objects :: "Object list" where
  "example_objects =
     [\<lparr>Key = ''README'', LastModified = 1700000000, Size = 7\<rparr>,
      \<lparr>Key = ''btc/mainnet/2024-01-01T00-00-00.tar.gz'', LastModified = 1712000000,
        Size = 100\<rparr>,
      \<lparr>Key = ''btc/mainnet/2024-02-01T00-00-00.tar.gz'', LastModified = 1706745600,
        Size = 200\<rparr>,
      \<lparr>Key = ''btc/mainnet/snapshot-latest.json'', LastModified = 1712000001, Size = 2\<rparr>,
      \<lparr>Key = ''eth/testnet/snapshot-latest.json'', LastModified = 1706745700, Size = 2\<rparr>]"

text \<open>
  A store that answers a listing with the objects whose key begins with the prefix
  asked for, pages of one object each, presigns every key and holds the document
  \<^verbatim>\<open>{}\<close> under every key it lists.
\<close>

definition listed :: "string option \<Rightarrow> Object list" where
  "listed prefix =
     filter (\<lambda>obj. case prefix of None \<Rightarrow> True | Some p \<Rightarrow> HasPrefix (Key obj) p)
       example_objects"

definition example_store :: S3 where
  "example_store =
     \<lparr>ListObjectsV2 = (\<lambda>bucket prefix. (\<lparr>Contents = listed prefix\<rparr>, None)),
      ListPages = (\<lambda>bucket prefix. (map (\<lambda>obj. \<lparr>Contents = [obj]\<rparr>) (listed prefix), None)),
      Presign = (\<lambda>bucket key expire. Inr (''https://s3.example.org/'' @ bucket @ ''/'' @ key)),
      GetObject = (\<lambda>bucket key.
        if key \<in> set (map Key example_objects) then Inr (Inr ''{}'')
        else Inl \<lparr>Error = ''NoSuchKey: The specified key does not exist.'',
                  Code = Some ''NoSuchKey''\<rparr>)\<rparr>"

text \<open>The same store when it cannot be reached: every request fails.\<close>

definition request_error :: error where
  "request_error = \<lparr>Error = ''RequestError: send request failed'', Code = Some ''RequestError''\<rparr>"

definition unavailable_store :: S3 where
  "unavailable_store =
     \<lparr>ListObjectsV2 = (\<lambda>bucket prefix. (\<lparr>Contents = []\<rparr>, Some request_error)),
      ListPages = (\<lambda>bucket prefix. ([], Some request_error)),
      Presign = (\<lambda>bucket key expire. Inl request_error),
      GetObject = (\<lambda>bucket key. Inl request_error)\<rparr>"

text \<open>The example store when presigning one of its keys fails.\<close>

definition presign_failing_store :: S3 where
  "presign_failing_store =
     example_store\<lparr>Presign := (\<lambda>bucket key expire.
       if key = ''btc/mainnet/2024-02-01T00-00-00.tar.gz''
       then Inl \<lparr>Error = ''NoCredentialProviders: no valid providers in chain'',
                 Code = Some ''NoCredentialProviders''\<rparr>
       else Presign example_store bucket key expire)\<rparr>"

text \<open>A store that answers every listing with the whole bucket, whatever the prefix.\<close>

definition loose_store :: S3 where
  "loose_store =
     example_store\<lparr>ListObjectsV2 := (\<lambda>bucket prefix. (\<lparr>Contents = example_objects\<rparr>, None))\<rparr>"

text \<open>
  A decoder that takes the document \<^verbatim>\<open>{}\<close> and refuses everything else; a store whose
  metadata document is cut short; and a store whose connection drops while the body is
  read.
\<close>

definition example_Unmarshal :: "string \<Rightarrow> error + string" where
  "example_Unmarshal body =
     (if body = ''{}'' then Inr ''{}''
      else Inl \<lparr>Error = ''unexpected end of JSON input'', Code = None\<rparr>)"

definition malformed_store :: S3 where
  "malformed_store = example_store\<lparr>GetObject := (\<lambda>bucket key. Inr (Inr ''{''))\<rparr>"

definition dropped_store :: S3 where
  "dropped_store =
     example_store\<lparr>GetObject := (\<lambda>bucket key.
       Inr (Inl \<lparr>Error = ''unexpected EOF'', Code = None\<rparr>))\<rparr>"

section \<open>Facts about the library functions\<close>

text \<open>
  The two string tests are what their names say, and \<open>Split\<close> cuts at every separator:
  putting the separator back before each piece gives the string back, no piece holds
  the separator, and there is one piece more than there are separators.
\<close>

lemma HasPrefix_iff: "HasPrefix s p \<longleftrightarrow> (\<exists>t. s = p @ t)"
  by (induction s p rule: HasPrefix.induct) auto

lemma Contains_iff: "Contains s sub \<longleftrightarrow> (\<exists>a b. s = a @ sub @ b)"
proof (induction s)
  case Nil
  then show ?case by auto
next
  case (Cons c s)
  show ?case
  proof
    assume "Contains (c # s) sub"
    then consider "HasPrefix (c # s) sub" | "Contains s sub" by auto
    then show "\<exists>a b. c # s = a @ sub @ b"
    proof cases
      case 1
      then obtain b where "c # s = sub @ b" by (auto simp: HasPrefix_iff)
      then have "c # s = [] @ sub @ b" by simp
      then show ?thesis by blast
    next
      case 2
      with Cons.IH obtain a b where "s = a @ sub @ b" by blast
      then have "c # s = (c # a) @ sub @ b" by simp
      then show ?thesis by blast
    qed
  next
    assume "\<exists>a b. c # s = a @ sub @ b"
    then obtain a b where ab: "c # s = a @ sub @ b" by blast
    show "Contains (c # s) sub"
    proof (cases a)
      case Nil
      with ab have "HasPrefix (c # s) sub" by (simp add: HasPrefix_iff)
      then show ?thesis by simp
    next
      case (Cons x a')
      with ab have "s = a' @ sub @ b" by simp
      with Cons.IH have "Contains s sub" by blast
      then show ?thesis by simp
    qed
  qed
qed

text \<open>
  A key that begins with \<open>protocol/network/\<close> contains the protocol and contains the
  network: on a listing whose keys begin with the prefix, the filter of \<open>listFiles\<close>
  (main.go:118) lets every object through.
\<close>

lemma prefix_implies_Contains:
  "HasPrefix key (protocol @ ''/'' @ network @ ''/'') \<Longrightarrow> Contains key protocol \<and> Contains key network"
proof -
  assume "HasPrefix key (protocol @ ''/'' @ network @ ''/'')"
  then obtain t where t: "key = (protocol @ ''/'' @ network @ ''/'') @ t" by (auto simp: HasPrefix_iff)
  then have "key = [] @ protocol @ (''/'' @ network @ ''/'' @ t)" by simp
  then have 1: "Contains key protocol" unfolding Contains_iff by blast
  from t have "key = (protocol @ ''/'') @ network @ (''/'' @ t)" by simp
  then have 2: "Contains key network" unfolding Contains_iff by blast
  from 1 2 show ?thesis ..
qed

lemma Split_nonempty: "Split s sep \<noteq> []"
  by (induction s) (auto split: list.splits)

lemma Split_length: "length (Split s sep) = Suc (length (filter (\<lambda>c. c = sep) s))"
  by (induction s) (auto split: list.splits simp: Split_nonempty)

lemma Split_pieces: "w \<in> set (Split s sep) \<Longrightarrow> sep \<notin> set w"
  by (induction s arbitrary: w) (auto split: list.splits if_splits)

lemma Split_concat: "concat (map ((#) sep) (Split s sep)) = sep # s"
  by (induction s) (auto split: list.splits simp: Split_nonempty)

lemma Split_two_iff: "2 \<le> length (Split s sep) \<longleftrightarrow> sep \<in> set s"
  by (simp add: Split_length filter_empty_conv Suc_le_eq)

lemma Split_hd: "Split s sep ! 0 = takeWhile (\<lambda>c. c \<noteq> sep) s"
  by (induction s) (auto split: list.splits simp: Split_nonempty)

text \<open>Fifteen minutes in nanoseconds; the product stays within an int64.\<close>

lemma fifteen_minutes: "15 * Minute = (900000000000 :: 64 word)"
  by (simp add: Minute_def Second_def Millisecond_def Microsecond_def Nanosecond_def)

lemma fifteen_minutes_sint: "sint (15 * Minute) = 15 * 60 * 1000000000"
  by (simp add: Minute_def Second_def Millisecond_def Microsecond_def Nanosecond_def)

section \<open>Facts about listFiles\<close>

text \<open>
  A run of the loop that ends without an error has appended one entry per object that
  passes the filter, in order, each with the URL the store gave for it, and has made one
  presign request per entry.
\<close>

lemma listFiles_loop_Inr:
  "listFiles_loop svc config protocol network items files log = (Inr fs, lg) \<Longrightarrow>
     fs = files @ map (\<lambda>item. \<lparr>last_modified = LastModified item, size' = Size item,
            filename = Key item,
            url = projr (Presign svc (BucketName config) (Key item) (15 * Minute))\<rparr>)
          (filter (\<lambda>item. Contains (Key item) protocol \<and> Contains (Key item) network) items) \<and>
     lg = log @ map (\<lambda>item. \<lparr>req_Bucket = BucketName config, req_Key = Key item,
            req_expire = 15 * Minute\<rparr>)
          (filter (\<lambda>item. Contains (Key item) protocol \<and> Contains (Key item) network) items) \<and>
     (\<forall>item \<in> set (filter (\<lambda>item. Contains (Key item) protocol \<and> Contains (Key item) network) items).
        \<not> isl (Presign svc (BucketName config) (Key item) (15 * Minute)))"
proof (induction items arbitrary: files log)
  case Nil
  then show ?case by simp
next
  case (Cons item items)
  show ?case
  proof (cases "Contains (Key item) protocol \<and> Contains (Key item) network")
    case False
    with Cons.prems have "listFiles_loop svc config protocol network items files log = (Inr fs, lg)"
      by auto
    from Cons.IH [OF this] False show ?thesis by auto
  next
    case True
    show ?thesis
    proof (cases "Presign svc (BucketName config) (Key item) (15 * Minute)")
      case (Inl err)
      with True Cons.prems show ?thesis by simp
    next
      case (Inr urlStr)
      with True Cons.prems have
        "listFiles_loop svc config protocol network items
           (files @ [\<lparr>last_modified = LastModified item, size' = Size item,
                       filename = Key item, url = urlStr\<rparr>])
           (log @ [\<lparr>req_Bucket = BucketName config, req_Key = Key item,
                     req_expire = 15 * Minute\<rparr>]) = (Inr fs, lg)"
        by simp
      from Cons.IH [OF this] True Inr show ?thesis by simp
    qed
  qed
qed

text \<open>
  A run that ends with an error ends with the error of a presign request for an object
  that passes the filter, and has made no more requests than objects pass the filter.
\<close>

lemma listFiles_loop_Inl:
  "listFiles_loop svc config protocol network items files log = (Inl e, lg) \<Longrightarrow>
     (\<exists>item \<in> set (filter (\<lambda>item. Contains (Key item) protocol \<and> Contains (Key item) network) items).
        Presign svc (BucketName config) (Key item) (15 * Minute) = Inl e) \<and>
     length lg \<le> length log +
       length (filter (\<lambda>item. Contains (Key item) protocol \<and> Contains (Key item) network) items)"
proof (induction items arbitrary: files log)
  case Nil
  then show ?case by simp
next
  case (Cons item items)
  show ?case
  proof (cases "Contains (Key item) protocol \<and> Contains (Key item) network")
    case False
    with Cons.prems have "listFiles_loop svc config protocol network items files log = (Inl e, lg)"
      by auto
    from Cons.IH [OF this] False show ?thesis by auto
  next
    case True
    show ?thesis
    proof (cases "Presign svc (BucketName config) (Key item) (15 * Minute)")
      case (Inl err)
      with True Cons.prems show ?thesis by auto
    next
      case (Inr urlStr)
      with True Cons.prems have
        "listFiles_loop svc config protocol network items
           (files @ [\<lparr>last_modified = LastModified item, size' = Size item,
                       filename = Key item, url = urlStr\<rparr>])
           (log @ [\<lparr>req_Bucket = BucketName config, req_Key = Key item,
                     req_expire = 15 * Minute\<rparr>]) = (Inl e, lg)"
        by simp
      from Cons.IH [OF this] True show ?thesis by auto
    qed
  qed
qed

text \<open>Every presign request of the loop asks for fifteen minutes.\<close>

lemma listFiles_loop_expire:
  "\<forall>r \<in> set log. req_expire r = 15 * Minute \<Longrightarrow>
   \<forall>r \<in> set (snd (listFiles_loop svc config protocol network items files log)).
     req_expire r = 15 * Minute"
proof (induction items arbitrary: files log)
  case Nil
  then show ?case by simp
next
  case (Cons item items)
  have step: "\<forall>r \<in> set (log @ [\<lparr>req_Bucket = BucketName config, req_Key = Key item,
                  req_expire = 15 * Minute\<rparr>]). req_expire r = 15 * Minute"
    using Cons.prems by simp
  show ?case
  proof (cases "Contains (Key item) protocol \<and> Contains (Key item) network")
    case False
    with Cons.IH [OF Cons.prems] show ?thesis by auto
  next
    case True
    show ?thesis
    proof (cases "Presign svc (BucketName config) (Key item) (15 * Minute)")
      case (Inl err)
      with True step show ?thesis by simp
    next
      case (Inr urlStr)
      with True Cons.IH [OF step] show ?thesis by simp
    qed
  qed
qed

section \<open>Claims about listFiles\<close>

text \<open>
  C10. When the listing succeeds and no listed object passes the filter (an empty
  listing included), \<open>listFiles\<close> answers 200 with an empty list of links, not 404 and
  not an error, and makes no presign request.
\<close>

theorem listFiles_no_match_is_empty_success:
  assumes "ListObjectsV2 svc (BucketName config) (Some (protocol @ ''/'' @ network @ ''/''))
             = (resp, None)"
    and "\<forall>item \<in> set (Contents resp).
           \<not> (Contains (Key item) protocol \<and> Contains (Key item) network)"
  shows "(listFiles svc config protocol network :: 'j response \<times> PresignRequest list)
           = (JSON StatusOK (Files []), [])"
proof -
  let ?run = "listFiles_loop svc config protocol network (Contents resp) [] []"
  have none: "filter (\<lambda>item. Contains (Key item) protocol \<and> Contains (Key item) network)
                (Contents resp) = []"
    using assms(2) by (simp add: filter_empty_conv)
  obtain r lg where run: "?run = (r, lg)" by (cases ?run)
  have "?run = (Inr [], [])"
  proof (cases r)
    case (Inl e)
    with run listFiles_loop_Inl [of svc config protocol network "Contents resp" "[]" "[]" e lg]
    show ?thesis using none by simp
  next
    case (Inr fs)
    with run listFiles_loop_Inr [of svc config protocol network "Contents resp" "[]" "[]" fs lg]
    show ?thesis using none by simp
  qed
  with assms(1) show ?thesis by (simp add: listFiles_def)
qed

theorem listFiles_no_match_is_empty_success_witness:
  "ListObjectsV2 example_store (BucketName example_config) (Some ''eth/mainnet/'')
     = (\<lparr>Contents = []\<rparr>, None) \<and>
   (listFiles example_store example_config ''eth'' ''mainnet'' :: string response \<times> PresignRequest list)
     = (JSON 200 (Files []), []) \<and>
   ListObjectsV2 loose_store (BucketName example_config) (Some ''sol/devnet/'')
     = (\<lparr>Contents = example_objects\<rparr>, None) \<and>
   (listFiles loose_store example_config ''sol'' ''devnet'' :: string response \<times> PresignRequest list)
     = (JSON 200 (Files []), [])"
proof -
  have a: "ListObjectsV2 example_store (BucketName example_config)
             (Some (''eth'' @ ''/'' @ ''mainnet'' @ ''/'')) = (\<lparr>Contents = []\<rparr>, None)"
    by (simp add: example_store_def listed_def example_objects_def)
  have b: "ListObjectsV2 loose_store (BucketName example_config)
             (Some (''sol'' @ ''/'' @ ''devnet'' @ ''/'')) = (\<lparr>Contents = example_objects\<rparr>, None)"
    by (simp add: loose_store_def example_store_def)
  have c: "\<forall>item \<in> set (Contents \<lparr>Contents = example_objects\<rparr>).
             \<not> (Contains (Key item) ''sol'' \<and> Contains (Key item) ''devnet'')"
    by (simp add: example_objects_def)
  from listFiles_no_match_is_empty_success [OF a]
       listFiles_no_match_is_empty_success [OF b c] a b
  show ?thesis by simp
qed

text \<open>
  C4. \<open>listFiles\<close> answers one link per listed object that passes the filter, in listing
  order, after exactly one presign request per such object; when the listing fails, or
  the presign request of any such object fails, the answer is an error (status 500) that
  carries no list; and in every case it makes no more presign requests than objects
  pass the filter.
\<close>

theorem listFiles_all_or_nothing:
  assumes "ListObjectsV2 svc (BucketName config) (Some (protocol @ ''/'' @ network @ ''/''))
             = (resp, err)"
    and "matched = filter (\<lambda>item. Contains (Key item) protocol \<and> Contains (Key item) network)
                     (Contents resp)"
  shows "(err = None \<and>
            (\<forall>item \<in> set matched. \<not> isl (Presign svc (BucketName config) (Key item) (15 * Minute)))
          \<longrightarrow> (listFiles svc config protocol network :: 'j response \<times> PresignRequest list) =
                (JSON StatusOK (Files (map (\<lambda>item.
                    \<lparr>last_modified = LastModified item, size' = Size item, filename = Key item,
                      url = projr (Presign svc (BucketName config) (Key item) (15 * Minute))\<rparr>)
                    matched)),
                 map (\<lambda>item. \<lparr>req_Bucket = BucketName config, req_Key = Key item,
                                req_expire = 15 * Minute\<rparr>) matched)) \<and>
         (\<forall>e. err = Some e \<longrightarrow>
            (listFiles svc config protocol network :: 'j response \<times> PresignRequest list) =
              (JSON StatusInternalServerError (H_error (Error e)), [])) \<and>
         (err = None \<and>
            (\<exists>item \<in> set matched. isl (Presign svc (BucketName config) (Key item) (15 * Minute)))
          \<longrightarrow> (\<exists>item \<in> set matched. \<exists>e.
                 Presign svc (BucketName config) (Key item) (15 * Minute) = Inl e \<and>
                 fst (listFiles svc config protocol network :: 'j response \<times> PresignRequest list) =
                   JSON StatusInternalServerError (H_error (Error e)))) \<and>
         length (snd (listFiles svc config protocol network :: 'j response \<times> PresignRequest list))
           \<le> length matched"
proof -
  let ?run = "listFiles_loop svc config protocol network (Contents resp) [] []"
  let ?lf = "listFiles svc config protocol network :: 'j response \<times> PresignRequest list"
  obtain r lg where run: "?run = (r, lg)" by (cases ?run)
  have failed: "?lf = (JSON StatusInternalServerError (H_error (Error e)), [])" if "err = Some e" for e
    using that assms(1) by (simp add: listFiles_def)
  have ok: "?lf = (JSON StatusOK (Files fs), lg)" if "err = None" "r = Inr fs" for fs
    using that assms(1) run by (simp add: listFiles_def)
  have bad: "?lf = (JSON StatusInternalServerError (H_error (Error e)), lg)"
    if "err = None" "r = Inl e" for e
    using that assms(1) run by (simp add: listFiles_def)
  have 1: "?lf = (JSON StatusOK (Files (map (\<lambda>item.
                    \<lparr>last_modified = LastModified item, size' = Size item, filename = Key item,
                      url = projr (Presign svc (BucketName config) (Key item) (15 * Minute))\<rparr>)
                    matched)),
                 map (\<lambda>item. \<lparr>req_Bucket = BucketName config, req_Key = Key item,
                                req_expire = 15 * Minute\<rparr>) matched)"
    if none: "err = None"
      and all: "\<forall>item \<in> set matched. \<not> isl (Presign svc (BucketName config) (Key item) (15 * Minute))"
  proof (cases r)
    case (Inl e)
    from listFiles_loop_Inl [of svc config protocol network "Contents resp" "[]" "[]" e lg] run Inl
    obtain item where "item \<in> set matched"
      "Presign svc (BucketName config) (Key item) (15 * Minute) = Inl e"
      unfolding assms(2) by auto
    with all show ?thesis by auto
  next
    case (Inr fs)
    from listFiles_loop_Inr [of svc config protocol network "Contents resp" "[]" "[]" fs lg] run Inr
    show ?thesis using ok [OF none Inr] unfolding assms(2) by simp
  qed
  have 3: "\<exists>item \<in> set matched. \<exists>e.
             Presign svc (BucketName config) (Key item) (15 * Minute) = Inl e \<and>
             fst ?lf = JSON StatusInternalServerError (H_error (Error e))"
    if none: "err = None"
      and some: "\<exists>item \<in> set matched. isl (Presign svc (BucketName config) (Key item) (15 * Minute))"
  proof (cases r)
    case (Inl e)
    from listFiles_loop_Inl [of svc config protocol network "Contents resp" "[]" "[]" e lg] run Inl
    obtain item where "item \<in> set matched"
      "Presign svc (BucketName config) (Key item) (15 * Minute) = Inl e"
      unfolding assms(2) by auto
    with bad [OF none Inl] show ?thesis by auto
  next
    case (Inr fs)
    from listFiles_loop_Inr [of svc config protocol network "Contents resp" "[]" "[]" fs lg] run Inr
    have "\<forall>item \<in> set matched. \<not> isl (Presign svc (BucketName config) (Key item) (15 * Minute))"
      unfolding assms(2) by simp
    with some show ?thesis by blast
  qed
  have 4: "length (snd ?lf) \<le> length matched"
  proof (cases err)
    case (Some e)
    with failed show ?thesis by simp
  next
    case None
    show ?thesis
    proof (cases r)
      case (Inl e)
      from listFiles_loop_Inl [of svc config protocol network "Contents resp" "[]" "[]" e lg] run Inl
      have "length lg \<le> length matched" unfolding assms(2) by simp
      with bad [OF None Inl] show ?thesis by simp
    next
      case (Inr fs)
      from listFiles_loop_Inr [of svc config protocol network "Contents resp" "[]" "[]" fs lg] run Inr
      have "length lg = length matched" unfolding assms(2) by simp
      with ok [OF None Inr] show ?thesis by simp
    qed
  qed
  from 1 failed 3 4 show ?thesis by blast
qed

theorem listFiles_all_or_nothing_witness:
  "ListObjectsV2 example_store (BucketName example_config) (Some ''btc/mainnet/'')
     = (\<lparr>Contents = listed (Some ''btc/mainnet/'')\<rparr>, None) \<and>
   (listFiles example_store example_config ''btc'' ''mainnet'' :: string response \<times> PresignRequest list)
     = (JSON 200 (Files
         [\<lparr>last_modified = 1712000000, size' = 100,
            filename = ''btc/mainnet/2024-01-01T00-00-00.tar.gz'',
            url = ''https://s3.example.org/snapshots/btc/mainnet/2024-01-01T00-00-00.tar.gz''\<rparr>,
          \<lparr>last_modified = 1706745600, size' = 200,
            filename = ''btc/mainnet/2024-02-01T00-00-00.tar.gz'',
            url = ''https://s3.example.org/snapshots/btc/mainnet/2024-02-01T00-00-00.tar.gz''\<rparr>,
          \<lparr>last_modified = 1712000001, size' = 2,
            filename = ''btc/mainnet/snapshot-latest.json'',
            url = ''https://s3.example.org/snapshots/btc/mainnet/snapshot-latest.json''\<rparr>]),
        [\<lparr>req_Bucket = ''snapshots'', req_Key = ''btc/mainnet/2024-01-01T00-00-00.tar.gz'',
           req_expire = 900000000000\<rparr>,
         \<lparr>req_Bucket = ''snapshots'', req_Key = ''btc/mainnet/2024-02-01T00-00-00.tar.gz'',
           req_expire = 900000000000\<rparr>,
         \<lparr>req_Bucket = ''snapshots'', req_Key = ''btc/mainnet/snapshot-latest.json'',
           req_expire = 900000000000\<rparr>]) \<and>
   ListObjectsV2 unavailable_store (BucketName example_config) (Some ''btc/mainnet/'')
     = (\<lparr>Contents = []\<rparr>, Some request_error) \<and>
   (listFiles unavailable_store example_config ''btc'' ''mainnet'' :: string response \<times> PresignRequest list)
     = (JSON 500 (H_error ''RequestError: send request failed''), []) \<and>
   ListObjectsV2 presign_failing_store (BucketName example_config) (Some ''btc/mainnet/'')
     = (\<lparr>Contents = listed (Some ''btc/mainnet/'')\<rparr>, None) \<and>
   fst (listFiles presign_failing_store example_config ''btc'' ''mainnet''
          :: string response \<times> PresignRequest list)
     = JSON 500 (H_error ''NoCredentialProviders: no valid providers in chain'') \<and>
   length (snd (listFiles presign_failing_store example_config ''btc'' ''mainnet''
          :: string response \<times> PresignRequest list)) \<le> 3"
proof -
  let ?objs = "[\<lparr>Key = ''btc/mainnet/2024-01-01T00-00-00.tar.gz'', LastModified = 1712000000,
                   Size = 100\<rparr>,
                \<lparr>Key = ''btc/mainnet/2024-02-01T00-00-00.tar.gz'', LastModified = 1706745600,
                   Size = 200\<rparr>,
                \<lparr>Key = ''btc/mainnet/snapshot-latest.json'', LastModified = 1712000001,
                   Size = 2\<rparr>]"
  have l: "listed (Some ''btc/mainnet/'') = ?objs"
    by (simp add: listed_def example_objects_def)
  have a: "ListObjectsV2 example_store (BucketName example_config)
             (Some (''btc'' @ ''/'' @ ''mainnet'' @ ''/''))
           = (\<lparr>Contents = listed (Some ''btc/mainnet/'')\<rparr>, None)"
    by (simp add: example_store_def)
  have b: "ListObjectsV2 unavailable_store (BucketName example_config)
             (Some (''btc'' @ ''/'' @ ''mainnet'' @ ''/''))
           = (\<lparr>Contents = []\<rparr>, Some request_error)"
    by (simp add: unavailable_store_def)
  have c: "ListObjectsV2 presign_failing_store (BucketName example_config)
             (Some (''btc'' @ ''/'' @ ''mainnet'' @ ''/''))
           = (\<lparr>Contents = listed (Some ''btc/mainnet/'')\<rparr>, None)"
    by (simp add: presign_failing_store_def example_store_def)
  have m: "?objs = filter (\<lambda>item. Contains (Key item) ''btc'' \<and> Contains (Key item) ''mainnet'')
                     (Contents \<lparr>Contents = listed (Some ''btc/mainnet/'')\<rparr>)"
    by (simp add: l)
  have n: "[] = filter (\<lambda>item. Contains (Key item) ''btc'' \<and> Contains (Key item) ''mainnet'')
                     (Contents \<lparr>Contents = []\<rparr>)"
    by simp
  have 1: "(listFiles example_store example_config ''btc'' ''mainnet''
              :: string response \<times> PresignRequest list)
     = (JSON 200 (Files
         [\<lparr>last_modified = 1712000000, size' = 100,
            filename = ''btc/mainnet/2024-01-01T00-00-00.tar.gz'',
            url = ''https://s3.example.org/snapshots/btc/mainnet/2024-01-01T00-00-00.tar.gz''\<rparr>,
          \<lparr>last_modified = 1706745600, size' = 200,
            filename = ''btc/mainnet/2024-02-01T00-00-00.tar.gz'',
            url = ''https://s3.example.org/snapshots/btc/mainnet/2024-02-01T00-00-00.tar.gz''\<rparr>,
          \<lparr>last_modified = 1712000001, size' = 2,
            filename = ''btc/mainnet/snapshot-latest.json'',
            url = ''https://s3.example.org/snapshots/btc/mainnet/snapshot-latest.json''\<rparr>]),
        [\<lparr>req_Bucket = ''snapshots'', req_Key = ''btc/mainnet/2024-01-01T00-00-00.tar.gz'',
           req_expire = 900000000000\<rparr>,
         \<lparr>req_Bucket = ''snapshots'', req_Key = ''btc/mainnet/2024-02-01T00-00-00.tar.gz'',
           req_expire = 900000000000\<rparr>,
         \<lparr>req_Bucket = ''snapshots'', req_Key = ''btc/mainnet/snapshot-latest.json'',
           req_expire = 900000000000\<rparr>])"
    using listFiles_all_or_nothing [OF a m, where ?'j = string]
    by (simp add: example_store_def example_config_def fifteen_minutes)
  have 2: "(listFiles unavailable_store example_config ''btc'' ''mainnet''
              :: string response \<times> PresignRequest list)
     = (JSON 500 (H_error ''RequestError: send request failed''), [])"
    using listFiles_all_or_nothing [OF b n, where ?'j = string]
    by (simp add: request_error_def)
  have 3: "fst (listFiles presign_failing_store example_config ''btc'' ''mainnet''
          :: string response \<times> PresignRequest list)
     = JSON 500 (H_error ''NoCredentialProviders: no valid providers in chain'') \<and>
   length (snd (listFiles presign_failing_store example_config ''btc'' ''mainnet''
          :: string response \<times> PresignRequest list)) \<le> 3"
    using listFiles_all_or_nothing [OF c m, where ?'j = string]
    by (auto simp add: presign_failing_store_def example_store_def example_config_def)
  from a b c 1 2 3 show ?thesis by simp
qed

text \<open>
  C8. The links \<open>listFiles\<close> answers are, in order, those of the listed objects whose key
  contains the protocol and contains the network: every link's key contains both, a
  listed object whose key lacks one of them has no link, and when the store answers the
  listing for the prefix \<open>protocol/network/\<close> with keys that begin with it, every link's
  key begins with it.
\<close>

theorem listFiles_links_filtered:
  assumes "ListObjectsV2 svc (BucketName config) (Some (protocol @ ''/'' @ network @ ''/''))
             = (resp, err)"
    and "fst (listFiles svc config protocol network :: 'j response \<times> PresignRequest list)
           = JSON code (Files files)"
  shows "map filename files =
           map Key (filter (\<lambda>item. Contains (Key item) protocol \<and> Contains (Key item) network)
                      (Contents resp)) \<and>
         (\<forall>f \<in> set files. Contains (filename f) protocol \<and> Contains (filename f) network) \<and>
         (\<forall>item \<in> set (Contents resp).
            \<not> (Contains (Key item) protocol \<and> Contains (Key item) network)
            \<longrightarrow> Key item \<notin> set (map filename files)) \<and>
         ((\<forall>item \<in> set (Contents resp). HasPrefix (Key item) (protocol @ ''/'' @ network @ ''/''))
            \<longrightarrow> (\<forall>f \<in> set files. HasPrefix (filename f) (protocol @ ''/'' @ network @ ''/'')))"
proof -
  let ?run = "listFiles_loop svc config protocol network (Contents resp) [] []"
  let ?P = "\<lambda>item. Contains (Key item) protocol \<and> Contains (Key item) network"
  obtain r lg where run: "?run = (r, lg)" by (cases ?run)
  have "err = None \<and> r = Inr files"
    using assms run by (cases err; cases r) (simp_all add: listFiles_def)
  with run have "?run = (Inr files, lg)" by simp
  from listFiles_loop_Inr [OF this]
  have names: "map filename files = map Key (filter ?P (Contents resp))"
    by (simp add: comp_def)
  then have sets: "set (map filename files) = Key ` set (filter ?P (Contents resp))"
    by (metis set_map)
  have 2: "\<forall>f \<in> set files. Contains (filename f) protocol \<and> Contains (filename f) network"
  proof
    fix f assume "f \<in> set files"
    then have "filename f \<in> set (map filename files)" by simp
    with sets obtain item where "item \<in> set (Contents resp)" "?P item" "filename f = Key item"
      by auto
    then show "Contains (filename f) protocol \<and> Contains (filename f) network" by simp
  qed
  have 3: "\<forall>item \<in> set (Contents resp). \<not> ?P item \<longrightarrow> Key item \<notin> set (map filename files)"
  proof (intro ballI impI notI)
    fix item assume "item \<in> set (Contents resp)" "\<not> ?P item" "Key item \<in> set (map filename files)"
    then obtain f where "f \<in> set files" "filename f = Key item" by auto
    with 2 \<open>\<not> ?P item\<close> show False by auto
  qed
  have 4: "\<forall>f \<in> set files. HasPrefix (filename f) (protocol @ ''/'' @ network @ ''/'')"
    if all: "\<forall>item \<in> set (Contents resp). HasPrefix (Key item) (protocol @ ''/'' @ network @ ''/'')"
  proof
    fix f assume "f \<in> set files"
    then have "filename f \<in> set (map filename files)" by simp
    with sets obtain item where "item \<in> set (Contents resp)" "filename f = Key item"
      by auto
    with all show "HasPrefix (filename f) (protocol @ ''/'' @ network @ ''/'')" by simp
  qed
  from names 2 3 4 show ?thesis by blast
qed

theorem listFiles_links_filtered_witness:
  "ListObjectsV2 loose_store (BucketName example_config) (Some ''eth/testnet/'')
     = (\<lparr>Contents = example_objects\<rparr>, None) \<and>
   fst (listFiles loose_store example_config ''eth'' ''testnet''
          :: string response \<times> PresignRequest list)
     = JSON 200 (Files
         [\<lparr>last_modified = 1706745700, size' = 2,
            filename = ''eth/testnet/snapshot-latest.json'',
            url = ''https://s3.example.org/snapshots/eth/testnet/snapshot-latest.json''\<rparr>]) \<and>
   \<not> Contains ''btc/mainnet/snapshot-latest.json'' ''eth'' \<and>
   ''btc/mainnet/snapshot-latest.json'' \<in> set (map Key example_objects) \<and>
   ''btc/mainnet/snapshot-latest.json'' \<notin> set (map filename
         [\<lparr>last_modified = 1706745700, size' = 2,
            filename = ''eth/testnet/snapshot-latest.json'',
            url = ''https://s3.example.org/snapshots/eth/testnet/snapshot-latest.json''\<rparr>]) \<and>
   Contains ''eth/testnet/snapshot-latest.json'' ''eth'' \<and>
   Contains ''eth/testnet/snapshot-latest.json'' ''testnet'' \<and>
   ListObjectsV2 example_store (BucketName example_config) (Some ''btc/mainnet/'')
     = (\<lparr>Contents = listed (Some ''btc/mainnet/'')\<rparr>, None) \<and>
   list_all (\<lambda>item. HasPrefix (Key item) ''btc/mainnet/'') (listed (Some ''btc/mainnet/'')) \<and>
   fst (listFiles example_store example_config ''btc'' ''mainnet''
          :: string response \<times> PresignRequest list)
     = JSON 200 (Files
         [\<lparr>last_modified = 1712000000, size' = 100,
            filename = ''btc/mainnet/2024-01-01T00-00-00.tar.gz'',
            url = ''https://s3.example.org/snapshots/btc/mainnet/2024-01-01T00-00-00.tar.gz''\<rparr>,
          \<lparr>last_modified = 1706745600, size' = 200,
            filename = ''btc/mainnet/2024-02-01T00-00-00.tar.gz'',
            url = ''https://s3.example.org/snapshots/btc/mainnet/2024-02-01T00-00-00.tar.gz''\<rparr>,
          \<lparr>last_modified = 1712000001, size' = 2,
            filename = ''btc/mainnet/snapshot-latest.json'',
            url = ''https://s3.example.org/snapshots/btc/mainnet/snapshot-latest.json''\<rparr>]) \<and>
   list_all (\<lambda>f. HasPrefix f ''btc/mainnet/'')
     [''btc/mainnet/2024-01-01T00-00-00.tar.gz'', ''btc/mainnet/2024-02-01T00-00-00.tar.gz'',
      ''btc/mainnet/snapshot-latest.json'']"
proof -
  let ?files' = "[\<lparr>last_modified = 1712000000, size' = 100,
            filename = ''btc/mainnet/2024-01-01T00-00-00.tar.gz'',
            url = ''https://s3.example.org/snapshots/btc/mainnet/2024-01-01T00-00-00.tar.gz''\<rparr>,
          \<lparr>last_modified = 1706745600, size' = 200,
            filename = ''btc/mainnet/2024-02-01T00-00-00.tar.gz'',
            url = ''https://s3.example.org/snapshots/btc/mainnet/2024-02-01T00-00-00.tar.gz''\<rparr>,
          \<lparr>last_modified = 1712000001, size' = 2,
            filename = ''btc/mainnet/snapshot-latest.json'',
            url = ''https://s3.example.org/snapshots/btc/mainnet/snapshot-latest.json''\<rparr>]"
  have c: "ListObjectsV2 example_store (BucketName example_config)
             (Some (''btc'' @ ''/'' @ ''mainnet'' @ ''/''))
           = (\<lparr>Contents = listed (Some ''btc/mainnet/'')\<rparr>, None)"
    by (simp add: example_store_def)
  have d: "fst (listFiles example_store example_config ''btc'' ''mainnet''
             :: string response \<times> PresignRequest list) = JSON 200 (Files ?files')"
    by (simp add: listFiles_def example_store_def listed_def example_objects_def
          example_config_def)
  have e: "list_all (\<lambda>item. HasPrefix (Key item) ''btc/mainnet/'') (listed (Some ''btc/mainnet/''))"
    by (simp add: listed_def example_objects_def)
  have f: "list_all (\<lambda>f. HasPrefix f ''btc/mainnet/'')
     [''btc/mainnet/2024-01-01T00-00-00.tar.gz'', ''btc/mainnet/2024-02-01T00-00-00.tar.gz'',
      ''btc/mainnet/snapshot-latest.json'']"
    using listFiles_links_filtered [OF c d] e by (simp add: list_all_iff)
  let ?files = "[\<lparr>last_modified = 1706745700, size' = 2,
            filename = ''eth/testnet/snapshot-latest.json'',
            url = ''https://s3.example.org/snapshots/eth/testnet/snapshot-latest.json''\<rparr>]"
  have a: "ListObjectsV2 loose_store (BucketName example_config)
             (Some (''eth'' @ ''/'' @ ''testnet'' @ ''/''))
           = (\<lparr>Contents = example_objects\<rparr>, None)"
    by (simp add: loose_store_def example_store_def)
  have b: "fst (listFiles loose_store example_config ''eth'' ''testnet''
             :: string response \<times> PresignRequest list) = JSON 200 (Files ?files)"
    by (simp add: listFiles_def loose_store_def example_store_def example_objects_def
          example_config_def)
  have g: "\<not> Contains ''btc/mainnet/snapshot-latest.json'' ''eth'' \<and>
   ''btc/mainnet/snapshot-latest.json'' \<in> set (map Key example_objects) \<and>
   ''btc/mainnet/snapshot-latest.json'' \<notin> set (map filename ?files) \<and>
   Contains ''eth/testnet/snapshot-latest.json'' ''eth'' \<and>
   Contains ''eth/testnet/snapshot-latest.json'' ''testnet''"
    using listFiles_links_filtered [OF a b] by (simp add: example_objects_def)
  from a b c d e f g show ?thesis by simp
qed

section \<open>Facts about latestSnapshot\<close>

text \<open>Scanning two lists one after the other is scanning their concatenation.\<close>

lemma latest_in_page_append:
  "latest_in_page prefix (xs @ ys) latestObject =
     latest_in_page prefix ys (latest_in_page prefix xs latestObject)"
  by (induction xs arbitrary: latestObject) auto

text \<open>
  The callback never stops the iteration, so the pages are scanned one after the other,
  all of them, and the error of the listing is handed on.
\<close>

lemma EachPage_page_callback:
  "EachPage (page_callback prefix) pages err latestObject =
     (latest_in_page prefix (concat (map Contents pages)) latestObject, err)"
  by (induction pages arbitrary: latestObject)
     (auto simp: page_callback_def latest_in_page_append)

lemma scan_snapshots_eq:
  "ListPages svc (BucketName config) (Some (protocol @ ''/'' @ network @ ''/'')) = (pages, err) \<Longrightarrow>
   scan_snapshots svc config protocol network =
     (latest_in_page (protocol @ ''/'' @ network @ ''/'') (concat (map Contents pages)) None, err)"
  by (simp add: scan_snapshots_def ListObjectsV2Pages_def EachPage_page_callback)

text \<open>
  What a scan leaves in \<open>latestObject\<close>: nothing, when it started with nothing and every
  object is the sentinel; otherwise the object it started with or a scanned object that
  is not the sentinel, whose key no scanned non-sentinel key and not the starting key
  exceeds.
\<close>

lemma latest_in_page_result:
  "case latest_in_page prefix items latestObject of
     None \<Rightarrow> latestObject = None \<and>
            filter (\<lambda>obj. Key obj \<noteq> prefix @ ''snapshot-latest.json'') items = []
   | Some obj \<Rightarrow>
       (latestObject = Some obj \<or>
        obj \<in> set (filter (\<lambda>obj. Key obj \<noteq> prefix @ ''snapshot-latest.json'') items)) \<and>
       (\<forall>c \<in> set (filter (\<lambda>obj. Key obj \<noteq> prefix @ ''snapshot-latest.json'') items).
          Key c \<le> Key obj) \<and>
       (case latestObject of None \<Rightarrow> True | Some l \<Rightarrow> Key l \<le> Key obj)"
proof (induction items arbitrary: latestObject)
  case Nil
  then show ?case by (simp split: option.splits)
next
  case (Cons item items)
  let ?sentinel = "prefix @ ''snapshot-latest.json''"
  show ?case
  proof (cases "Key item \<noteq> ?sentinel \<and>
                (case latestObject of None \<Rightarrow> True | Some l \<Rightarrow> Key item > Key l)")
    case True
    then have eq: "latest_in_page prefix (item # items) latestObject =
                     latest_in_page prefix items (Some item)"
      by simp
    from Cons.IH [of "Some item"] obtain obj where
      r: "latest_in_page prefix items (Some item) = Some obj"
      and mem: "Some item = Some obj \<or> obj \<in> set (filter (\<lambda>obj. Key obj \<noteq> ?sentinel) items)"
      and top: "\<forall>c \<in> set (filter (\<lambda>obj. Key obj \<noteq> ?sentinel) items). Key c \<le> Key obj"
      and ge: "Key item \<le> Key obj"
      by (auto split: option.splits)
    have "case latestObject of None \<Rightarrow> True | Some l \<Rightarrow> Key l \<le> Key obj"
      using True ge by (auto split: option.splits)
    with r mem top ge True show ?thesis unfolding eq by auto
  next
    case False
    then have eq: "latest_in_page prefix (item # items) latestObject =
                     latest_in_page prefix items latestObject"
      by auto
    show ?thesis
    proof (cases "Key item = ?sentinel")
      case True
      with Cons.IH [of latestObject] show ?thesis unfolding eq
        by (auto split: option.splits)
    next
      case notsent: False
      with False obtain l where l: "latestObject = Some l" "Key item \<le> Key l"
        by (auto split: option.splits)
      from Cons.IH [of latestObject] l obtain obj where
        r: "latest_in_page prefix items latestObject = Some obj"
        and mem: "latestObject = Some obj \<or> obj \<in> set (filter (\<lambda>obj. Key obj \<noteq> ?sentinel) items)"
        and top: "\<forall>c \<in> set (filter (\<lambda>obj. Key obj \<noteq> ?sentinel) items). Key c \<le> Key obj"
        and ge: "Key l \<le> Key obj"
        by (auto split: option.splits)
      from l ge have "Key item \<le> Key obj" by simp
      with r mem top ge l show ?thesis unfolding eq by auto
    qed
  qed
qed

section \<open>Claims about latestSnapshot\<close>

text \<open>
  C1. When the listing under \<open>protocol/network/\<close> succeeds and some listed object, on
  whatever page, is not the sentinel, \<open>latestSnapshot\<close> selects a non-sentinel object of
  the pages taken together whose key is the greatest of their non-sentinel keys in the
  byte-wise order of strings, presigns that key and answers with that object's size and
  modification time. Only keys are compared: the modification times take no part.
\<close>

theorem latestSnapshot_selects_greatest_key:
  assumes "ListPages svc (BucketName config) (Some (protocol @ ''/'' @ network @ ''/''))
             = (pages, None)"
    and "candidates =
           filter (\<lambda>obj. Key obj \<noteq> protocol @ ''/'' @ network @ ''/snapshot-latest.json'')
             (concat (map Contents pages))"
    and "candidates \<noteq> []"
  shows "\<exists>obj \<in> set candidates.
           Key obj = Max (Key ` set candidates) \<and>
           scan_snapshots svc config protocol network = (Some obj, None) \<and>
           (latestSnapshot svc config protocol network :: 'j response \<times> PresignRequest list) =
             ((case Presign svc (BucketName config) (Key obj) (15 * Minute) of
                 Inl err \<Rightarrow> JSON StatusInternalServerError (H_error (Error err))
               | Inr urlStr \<Rightarrow> JSON StatusOK (H_latest urlStr (Size obj) (LastModified obj))),
              [\<lparr>req_Bucket = BucketName config, req_Key = Key obj,
                req_expire = 15 * Minute\<rparr>])"
proof -
  let ?prefix = "protocol @ ''/'' @ network @ ''/''"
  let ?all = "concat (map Contents pages)"
  have scan: "scan_snapshots svc config protocol network =
                (latest_in_page ?prefix ?all None, None)"
    using assms(1) by (rule scan_snapshots_eq)
  have cands: "filter (\<lambda>obj. Key obj \<noteq> ?prefix @ ''snapshot-latest.json'') ?all = candidates"
    using assms(2) by simp
  from latest_in_page_result [where prefix = ?prefix and items = ?all and latestObject = None] assms(3)
  obtain obj where sel: "latest_in_page ?prefix ?all None = Some obj"
    and mem: "obj \<in> set candidates"
    and top: "\<forall>c \<in> set candidates. Key c \<le> Key obj"
    unfolding cands by (auto split: option.splits)
  have "Max (Key ` set candidates) = Key obj"
  proof (rule Max_eqI)
    show "finite (Key ` set candidates)" by simp
    show "Key obj \<in> Key ` set candidates" using mem by simp
    show "\<And>y. y \<in> Key ` set candidates \<Longrightarrow> y \<le> Key obj" using top by auto
  qed
  moreover have "scan_snapshots svc config protocol network = (Some obj, None)"
    using scan sel by simp
  moreover from this have
    "(latestSnapshot svc config protocol network :: 'j response \<times> PresignRequest list) =
             ((case Presign svc (BucketName config) (Key obj) (15 * Minute) of
                 Inl err \<Rightarrow> JSON StatusInternalServerError (H_error (Error err))
               | Inr urlStr \<Rightarrow> JSON StatusOK (H_latest urlStr (Size obj) (LastModified obj))),
              [\<lparr>req_Bucket = BucketName config, req_Key = Key obj,
                req_expire = 15 * Minute\<rparr>])"
    by (simp add: latestSnapshot_def split: sum.splits)
  ultimately show ?thesis using mem by auto
qed

theorem latestSnapshot_selects_greatest_key_witness:
  "ListPages example_store (BucketName example_config) (Some ''btc/mainnet/'') =
     ([\<lparr>Contents = [\<lparr>Key = ''btc/mainnet/2024-01-01T00-00-00.tar.gz'',
                       LastModified = 1712000000, Size = 100\<rparr>]\<rparr>,
       \<lparr>Contents = [\<lparr>Key = ''btc/mainnet/2024-02-01T00-00-00.tar.gz'',
                       LastModified = 1706745600, Size = 200\<rparr>]\<rparr>,
       \<lparr>Contents = [\<lparr>Key = ''btc/mainnet/snapshot-latest.json'',
                       LastModified = 1712000001, Size = 2\<rparr>]\<rparr>], None) \<and>
   (latestSnapshot example_store example_config ''btc'' ''mainnet''
      :: string response \<times> PresignRequest list) =
     (JSON 200 (H_latest
        ''https://s3.example.org/snapshots/btc/mainnet/2024-02-01T00-00-00.tar.gz''
        200 1706745600),
      [\<lparr>req_Bucket = ''snapshots'', req_Key = ''btc/mainnet/2024-02-01T00-00-00.tar.gz'',
         req_expire = 900000000000\<rparr>])"
proof -
  let ?o1 = "\<lparr>Key = ''btc/mainnet/2024-01-01T00-00-00.tar.gz'',
               LastModified = 1712000000, Size = 100\<rparr>"
  let ?o2 = "\<lparr>Key = ''btc/mainnet/2024-02-01T00-00-00.tar.gz'',
               LastModified = 1706745600, Size = 200\<rparr>"
  let ?o3 = "\<lparr>Key = ''btc/mainnet/snapshot-latest.json'',
               LastModified = 1712000001, Size = 2\<rparr>"
  let ?pages = "[\<lparr>Contents = [?o1]\<rparr>, \<lparr>Contents = [?o2]\<rparr>, \<lparr>Contents = [?o3]\<rparr>]"
  have a: "ListPages example_store (BucketName example_config)
             (Some (''btc'' @ ''/'' @ ''mainnet'' @ ''/'')) = (?pages, None)"
    by (simp add: example_store_def listed_def example_objects_def)
  have b: "[?o1, ?o2] =
           filter (\<lambda>obj. Key obj \<noteq> ''btc'' @ ''/'' @ ''mainnet'' @ ''/snapshot-latest.json'')
             (concat (map Contents ?pages))"
    by simp
  have c: "[?o1, ?o2] \<noteq> []" by simp
  have lt: "Key ?o1 < Key ?o2" by simp
  have "(latestSnapshot example_store example_config ''btc'' ''mainnet''
      :: string response \<times> PresignRequest list) =
     (JSON 200 (H_latest
        ''https://s3.example.org/snapshots/btc/mainnet/2024-02-01T00-00-00.tar.gz''
        200 1706745600),
      [\<lparr>req_Bucket = ''snapshots'', req_Key = ''btc/mainnet/2024-02-01T00-00-00.tar.gz'',
         req_expire = 900000000000\<rparr>])"
    using latestSnapshot_selects_greatest_key [OF a b c, where ?'j = string] lt
    by (auto simp add: example_store_def example_config_def fifteen_minutes max_def)
  with a show ?thesis by simp
qed

text \<open>
  C2. Whatever the store lists, the object \<open>latestSnapshot\<close> holds as the latest after
  the listing is never the sentinel \<open>protocol/network/snapshot-latest.json\<close>, it never
  asks the store to presign the sentinel, and a link it answers is the link of an object
  that is not the sentinel.
\<close>

theorem latestSnapshot_never_selects_sentinel:
  "(\<forall>obj. fst (scan_snapshots svc config protocol network) = Some obj \<longrightarrow>
      Key obj \<noteq> protocol @ ''/'' @ network @ ''/snapshot-latest.json'') \<and>
   (\<forall>r \<in> set (snd (latestSnapshot svc config protocol network
                     :: 'j response \<times> PresignRequest list)).
      req_Key r \<noteq> protocol @ ''/'' @ network @ ''/snapshot-latest.json'') \<and>
   (\<forall>code u s t.
      fst (latestSnapshot svc config protocol network :: 'j response \<times> PresignRequest list)
        = JSON code (H_latest u s t) \<longrightarrow>
      (\<exists>obj. fst (scan_snapshots svc config protocol network) = Some obj \<and>
         Key obj \<noteq> protocol @ ''/'' @ network @ ''/snapshot-latest.json'' \<and>
         Presign svc (BucketName config) (Key obj) (15 * Minute) = Inr u \<and>
         s = Size obj \<and> t = LastModified obj))"
proof -
  let ?prefix = "protocol @ ''/'' @ network @ ''/''"
  let ?sentinel = "protocol @ ''/'' @ network @ ''/snapshot-latest.json''"
  obtain pages err where
    pages: "ListPages svc (BucketName config) (Some ?prefix) = (pages, err)"
    by (cases "ListPages svc (BucketName config) (Some ?prefix)")
  let ?all = "concat (map Contents pages)"
  have scan: "scan_snapshots svc config protocol network = (latest_in_page ?prefix ?all None, err)"
    using pages by (rule scan_snapshots_eq)
  have 1: "Key obj \<noteq> ?sentinel" if "fst (scan_snapshots svc config protocol network) = Some obj"
    for obj
    using that scan
      latest_in_page_result [where prefix = ?prefix and items = ?all and latestObject = None]
    by auto
  have 2: "\<forall>r \<in> set (snd (latestSnapshot svc config protocol network
                     :: 'j response \<times> PresignRequest list)). req_Key r \<noteq> ?sentinel"
    using 1 by (auto simp: latestSnapshot_def split: prod.splits option.splits sum.splits)
  have 3: "\<exists>obj. fst (scan_snapshots svc config protocol network) = Some obj \<and>
         Key obj \<noteq> ?sentinel \<and>
         Presign svc (BucketName config) (Key obj) (15 * Minute) = Inr u \<and>
         s = Size obj \<and> t = LastModified obj"
    if "fst (latestSnapshot svc config protocol network :: 'j response \<times> PresignRequest list)
        = JSON code (H_latest u s t)" for code u s t
    using that 1 by (auto simp: latestSnapshot_def split: prod.splits option.splits sum.splits)
  from 1 2 3 show ?thesis by blast
qed

theorem latestSnapshot_never_selects_sentinel_witness:
  "Max (set (map Key (listed (Some ''btc/mainnet/'')))) = ''btc/mainnet/snapshot-latest.json'' \<and>
   fst (scan_snapshots example_store example_config ''btc'' ''mainnet'') =
     Some \<lparr>Key = ''btc/mainnet/2024-02-01T00-00-00.tar.gz'', LastModified = 1706745600,
            Size = 200\<rparr> \<and>
   ''btc/mainnet/2024-02-01T00-00-00.tar.gz'' \<noteq> ''btc/mainnet/snapshot-latest.json'' \<and>
   list_all (\<lambda>r. req_Key r \<noteq> ''btc/mainnet/snapshot-latest.json'')
     (snd (latestSnapshot example_store example_config ''btc'' ''mainnet''
             :: string response \<times> PresignRequest list))"
proof -
  have a: "fst (scan_snapshots example_store example_config ''btc'' ''mainnet'') =
     Some \<lparr>Key = ''btc/mainnet/2024-02-01T00-00-00.tar.gz'', LastModified = 1706745600,
            Size = 200\<rparr>"
    by (simp add: scan_snapshots_def ListObjectsV2Pages_def example_store_def listed_def
          example_objects_def page_callback_def)
  have b: "Max (set (map Key (listed (Some ''btc/mainnet/'')))) = ''btc/mainnet/snapshot-latest.json''"
    by (simp add: listed_def example_objects_def)
  from latestSnapshot_never_selects_sentinel
         [of example_store example_config "''btc''" "''mainnet''", where ?'j = string] a b
  show ?thesis by (simp add: list_all_iff)
qed

text \<open>
  C3. When the listing succeeds and every listed object (if any) is the sentinel,
  \<open>latestSnapshot\<close> answers 404 with the message \<open>No snapshots found\<close> and presigns
  nothing. A failed listing and a failed presign request are answered with status 500
  and the error's text, and 404 is answered in no other case than the first, so the two
  kinds of answer are never the same.
\<close>

theorem latestSnapshot_not_found:
  assumes "ListPages svc (BucketName config) (Some (protocol @ ''/'' @ network @ ''/''))
             = (pages, err)"
  shows "(err = None \<and>
            (\<forall>obj \<in> set (concat (map Contents pages)).
               Key obj = protocol @ ''/'' @ network @ ''/snapshot-latest.json'')
          \<longrightarrow> (latestSnapshot svc config protocol network :: 'j response \<times> PresignRequest list) =
                (JSON StatusNotFound (H_message ''No snapshots found''), [])) \<and>
         (\<forall>e. err = Some e \<longrightarrow>
            (latestSnapshot svc config protocol network :: 'j response \<times> PresignRequest list) =
              (JSON StatusInternalServerError (H_error (Error e)), [])) \<and>
         (\<forall>obj e. err = None \<and> fst (scan_snapshots svc config protocol network) = Some obj \<and>
              Presign svc (BucketName config) (Key obj) (15 * Minute) = Inl e \<longrightarrow>
            fst (latestSnapshot svc config protocol network :: 'j response \<times> PresignRequest list) =
              JSON StatusInternalServerError (H_error (Error e))) \<and>
         (\<forall>b. fst (latestSnapshot svc config protocol network :: 'j response \<times> PresignRequest list)
                = JSON StatusNotFound b \<longrightarrow>
              b = H_message ''No snapshots found'' \<and> err = None \<and>
              (\<forall>obj \<in> set (concat (map Contents pages)).
                 Key obj = protocol @ ''/'' @ network @ ''/snapshot-latest.json''))"
proof -
  let ?prefix = "protocol @ ''/'' @ network @ ''/''"
  let ?sentinel = "protocol @ ''/'' @ network @ ''/snapshot-latest.json''"
  let ?all = "concat (map Contents pages)"
  let ?ls = "latestSnapshot svc config protocol network :: 'j response \<times> PresignRequest list"
  have scan: "scan_snapshots svc config protocol network = (latest_in_page ?prefix ?all None, err)"
    using assms by (rule scan_snapshots_eq)
  note res = latest_in_page_result [where prefix = ?prefix and items = ?all and latestObject = None]
  have none_iff: "latest_in_page ?prefix ?all None = None \<longleftrightarrow> (\<forall>obj \<in> set ?all. Key obj = ?sentinel)"
    using res by (auto split: option.splits simp: filter_empty_conv)
  have 1: "?ls = (JSON StatusNotFound (H_message ''No snapshots found''), [])"
    if "err = None" "\<forall>obj \<in> set ?all. Key obj = ?sentinel"
    using that scan none_iff by (simp add: latestSnapshot_def)
  have 2: "?ls = (JSON StatusInternalServerError (H_error (Error e)), [])" if "err = Some e" for e
    using that scan by (simp add: latestSnapshot_def split: option.splits)
  have 3: "fst ?ls = JSON StatusInternalServerError (H_error (Error e))"
    if "err = None" "fst (scan_snapshots svc config protocol network) = Some obj"
       "Presign svc (BucketName config) (Key obj) (15 * Minute) = Inl e" for obj e
    using that scan by (simp add: latestSnapshot_def)
  have 4: "b = H_message ''No snapshots found'' \<and> err = None \<and> (\<forall>obj \<in> set ?all. Key obj = ?sentinel)"
    if "fst ?ls = JSON StatusNotFound b" for b
  proof -
    from that scan have "b = H_message ''No snapshots found'' \<and> err = None \<and>
        latest_in_page ?prefix ?all None = None"
      by (auto simp: latestSnapshot_def split: option.splits sum.splits)
    with none_iff show ?thesis by simp
  qed
  from 1 2 3 4 show ?thesis by blast
qed

theorem latestSnapshot_not_found_witness:
  "ListPages example_store (BucketName example_config) (Some ''eth/testnet/'') =
     ([\<lparr>Contents = [\<lparr>Key = ''eth/testnet/snapshot-latest.json'',
                       LastModified = 1706745700, Size = 2\<rparr>]\<rparr>], None) \<and>
   (latestSnapshot example_store example_config ''eth'' ''testnet''
      :: string response \<times> PresignRequest list) =
     (JSON 404 (H_message ''No snapshots found''), []) \<and>
   ListPages unavailable_store (BucketName example_config) (Some ''eth/testnet/'') =
     ([], Some request_error) \<and>
   (latestSnapshot unavailable_store example_config ''eth'' ''testnet''
      :: string response \<times> PresignRequest list) =
     (JSON 500 (H_error ''RequestError: send request failed''), []) \<and>
   fst (latestSnapshot presign_failing_store example_config ''btc'' ''mainnet''
      :: string response \<times> PresignRequest list) =
     JSON 500 (H_error ''NoCredentialProviders: no valid providers in chain'')"
proof -
  let ?pages = "[\<lparr>Contents = [\<lparr>Key = ''eth/testnet/snapshot-latest.json'',
                       LastModified = 1706745700, Size = 2\<rparr>]\<rparr>]"
  have a: "ListPages example_store (BucketName example_config)
             (Some (''eth'' @ ''/'' @ ''testnet'' @ ''/'')) = (?pages, None)"
    by (simp add: example_store_def listed_def example_objects_def)
  have b: "ListPages unavailable_store (BucketName example_config)
             (Some (''eth'' @ ''/'' @ ''testnet'' @ ''/'')) = ([], Some request_error)"
    by (simp add: unavailable_store_def)
  have c: "ListPages presign_failing_store (BucketName example_config)
             (Some (''btc'' @ ''/'' @ ''mainnet'' @ ''/'')) =
           (map (\<lambda>obj. \<lparr>Contents = [obj]\<rparr>) (listed (Some ''btc/mainnet/'')), None)"
    by (simp add: presign_failing_store_def example_store_def)
  have d: "fst (scan_snapshots presign_failing_store example_config ''btc'' ''mainnet'') =
     Some \<lparr>Key = ''btc/mainnet/2024-02-01T00-00-00.tar.gz'', LastModified = 1706745600,
            Size = 200\<rparr>"
    by (simp add: scan_snapshots_def ListObjectsV2Pages_def presign_failing_store_def
          example_store_def listed_def example_objects_def page_callback_def)
  have e: "Presign presign_failing_store (BucketName example_config)
             (Key \<lparr>Key = ''btc/mainnet/2024-02-01T00-00-00.tar.gz'', LastModified = 1706745600,
                    Size = 200\<rparr>) (15 * Minute) =
           Inl \<lparr>Error = ''NoCredentialProviders: no valid providers in chain'',
                 Code = Some ''NoCredentialProviders''\<rparr>"
    by (simp add: presign_failing_store_def)
  have 1: "(latestSnapshot example_store example_config ''eth'' ''testnet''
      :: string response \<times> PresignRequest list) =
     (JSON 404 (H_message ''No snapshots found''), [])"
    using latestSnapshot_not_found [OF a, where ?'j = string, THEN conjunct1] by simp
  have 2: "(latestSnapshot unavailable_store example_config ''eth'' ''testnet''
      :: string response \<times> PresignRequest list) =
     (JSON 500 (H_error ''RequestError: send request failed''), [])"
    using latestSnapshot_not_found [OF b, where ?'j = string, THEN conjunct2, THEN conjunct1]
    by (simp add: request_error_def)
  have 3: "fst (latestSnapshot presign_failing_store example_config ''btc'' ''mainnet''
      :: string response \<times> PresignRequest list) =
     JSON 500 (H_error ''NoCredentialProviders: no valid providers in chain'')"
    using latestSnapshot_not_found [OF c, where ?'j = string, THEN conjunct2, THEN conjunct2,
            THEN conjunct1, rule_format, OF conjI, OF refl conjI, OF d e]
    by simp
  from a b 1 2 3 show ?thesis by simp
qed

section \<open>The expiry of the links\<close>

text \<open>
  C9. Every presign request of \<open>listFiles\<close> and of \<open>latestSnapshot\<close> asks for an expiry of
  \<open>15 * time.Minute\<close>, which is 900 000 000 000 nanoseconds (the product does not
  wrap in an int64); and every link the two handlers answer is the URL the store gave to
  such a request: for each entry of the list of \<open>listFiles\<close> a request for its key, for
  \<open>latestSnapshot\<close> the one request it makes, for the selected object.
\<close>

theorem presign_expiry_fifteen_minutes:
  "(\<forall>r \<in> set (snd (listFiles svc config protocol network :: 'j response \<times> PresignRequest list)).
      req_expire r = 15 * Minute) \<and>
   (\<forall>r \<in> set (snd (latestSnapshot svc config protocol network
                     :: 'j response \<times> PresignRequest list)).
      req_expire r = 15 * Minute) \<and>
   sint (15 * Minute) = 15 * 60 * 1000000000 \<and>
   (\<forall>code files.
      fst (listFiles svc config protocol network :: 'j response \<times> PresignRequest list)
        = JSON code (Files files) \<longrightarrow>
      (\<forall>f \<in> set files.
         Presign svc (BucketName config) (filename f) (15 * Minute) = Inr (url f) \<and>
         \<lparr>req_Bucket = BucketName config, req_Key = filename f, req_expire = 15 * Minute\<rparr>
           \<in> set (snd (listFiles svc config protocol network
                         :: 'j response \<times> PresignRequest list)))) \<and>
   (\<forall>code u s t.
      fst (latestSnapshot svc config protocol network :: 'j response \<times> PresignRequest list)
        = JSON code (H_latest u s t) \<longrightarrow>
      (\<exists>obj. fst (scan_snapshots svc config protocol network) = Some obj \<and>
         Presign svc (BucketName config) (Key obj) (15 * Minute) = Inr u \<and>
         snd (latestSnapshot svc config protocol network :: 'j response \<times> PresignRequest list) =
           [\<lparr>req_Bucket = BucketName config, req_Key = Key obj,
             req_expire = 15 * Minute\<rparr>]))"
proof -
  let ?lf = "listFiles svc config protocol network :: 'j response \<times> PresignRequest list"
  let ?ls = "latestSnapshot svc config protocol network :: 'j response \<times> PresignRequest list"
  let ?P = "\<lambda>item. Contains (Key item) protocol \<and> Contains (Key item) network"
  obtain resp err where
    list: "ListObjectsV2 svc (BucketName config) (Some (protocol @ ''/'' @ network @ ''/''))
             = (resp, err)"
    by (cases "ListObjectsV2 svc (BucketName config) (Some (protocol @ ''/'' @ network @ ''/''))")
  let ?run = "listFiles_loop svc config protocol network (Contents resp) [] []"
  obtain r lg where run: "?run = (r, lg)" by (cases ?run)
  have "\<forall>r \<in> set (snd ?run). req_expire r = 15 * Minute"
    by (rule listFiles_loop_expire) simp
  with run have lg: "\<forall>r \<in> set lg. req_expire r = 15 * Minute" by simp
  have snd_lf: "snd ?lf = [] \<or> snd ?lf = lg"
    using list run by (cases err; cases r) (simp_all add: listFiles_def)
  have 1: "\<forall>r \<in> set (snd ?lf). req_expire r = 15 * Minute"
    using snd_lf lg by auto
  have 2: "\<forall>r \<in> set (snd ?ls). req_expire r = 15 * Minute"
    by (auto simp: latestSnapshot_def split: prod.splits option.splits sum.splits)
  have 4: "\<forall>f \<in> set files.
         Presign svc (BucketName config) (filename f) (15 * Minute) = Inr (url f) \<and>
         \<lparr>req_Bucket = BucketName config, req_Key = filename f, req_expire = 15 * Minute\<rparr>
           \<in> set (snd ?lf)"
    if ok: "fst ?lf = JSON code (Files files)" for code files
  proof
    fix f assume f: "f \<in> set files"
    have "err = None \<and> r = Inr files"
      using ok list run by (cases err; cases r) (simp_all add: listFiles_def)
    then have e: "err = None" and r: "?run = (Inr files, lg)" using run by simp_all
    have lf: "snd ?lf = lg" using e r list by (simp add: listFiles_def)
    note facts = listFiles_loop_Inr [OF r]
    from facts f obtain item where item: "item \<in> set (filter ?P (Contents resp))"
      and feq: "f = \<lparr>last_modified = LastModified item, size' = Size item, filename = Key item,
                     url = projr (Presign svc (BucketName config) (Key item) (15 * Minute))\<rparr>"
      by auto
    from facts item have "\<not> isl (Presign svc (BucketName config) (Key item) (15 * Minute))"
      by blast
    then have p: "Presign svc (BucketName config) (filename f) (15 * Minute) = Inr (url f)"
      using feq by (cases "Presign svc (BucketName config) (Key item) (15 * Minute)") simp_all
    from facts item have
      "\<lparr>req_Bucket = BucketName config, req_Key = Key item, req_expire = 15 * Minute\<rparr> \<in> set lg"
      by auto
    with feq lf have
      "\<lparr>req_Bucket = BucketName config, req_Key = filename f, req_expire = 15 * Minute\<rparr>
         \<in> set (snd ?lf)"
      by simp
    with p show "Presign svc (BucketName config) (filename f) (15 * Minute) = Inr (url f) \<and>
         \<lparr>req_Bucket = BucketName config, req_Key = filename f, req_expire = 15 * Minute\<rparr>
           \<in> set (snd ?lf)" ..
  qed
  have 5: "\<exists>obj. fst (scan_snapshots svc config protocol network) = Some obj \<and>
         Presign svc (BucketName config) (Key obj) (15 * Minute) = Inr u \<and>
         snd ?ls = [\<lparr>req_Bucket = BucketName config, req_Key = Key obj,
                      req_expire = 15 * Minute\<rparr>]"
    if "fst ?ls = JSON code (H_latest u s t)" for code u s t
    using that by (auto simp: latestSnapshot_def split: prod.splits option.splits sum.splits)
  from 1 2 fifteen_minutes_sint 4 5 show ?thesis by blast
qed

theorem presign_expiry_fifteen_minutes_witness:
  "length (snd (listFiles example_store example_config ''btc'' ''mainnet''
            :: string response \<times> PresignRequest list)) = 3 \<and>
   list_all (\<lambda>r. sint (req_expire r) = 900000000000)
     (snd (listFiles example_store example_config ''btc'' ''mainnet''
            :: string response \<times> PresignRequest list)) \<and>
   length (snd (latestSnapshot example_store example_config ''btc'' ''mainnet''
            :: string response \<times> PresignRequest list)) = 1 \<and>
   list_all (\<lambda>r. sint (req_expire r) = 900000000000)
     (snd (latestSnapshot example_store example_config ''btc'' ''mainnet''
            :: string response \<times> PresignRequest list)) \<and>
   fst (latestSnapshot example_store example_config ''btc'' ''mainnet''
            :: string response \<times> PresignRequest list) =
     JSON 200 (H_latest
        ''https://s3.example.org/snapshots/btc/mainnet/2024-02-01T00-00-00.tar.gz''
        200 1706745600) \<and>
   Presign example_store ''snapshots'' ''btc/mainnet/2024-02-01T00-00-00.tar.gz'' (15 * Minute) =
     Inr ''https://s3.example.org/snapshots/btc/mainnet/2024-02-01T00-00-00.tar.gz''"
proof -
  let ?lf = "listFiles example_store example_config ''btc'' ''mainnet''
               :: string response \<times> PresignRequest list"
  let ?ls = "latestSnapshot example_store example_config ''btc'' ''mainnet''
               :: string response \<times> PresignRequest list"
  note inst = presign_expiry_fifteen_minutes
    [of example_store example_config "''btc''" "''mainnet''", where ?'j = string]
  have n1: "length (snd ?lf) = 3"
    by (simp add: listFiles_def example_store_def listed_def example_objects_def)
  have n2: "length (snd ?ls) = 1"
    by (simp add: latestSnapshot_def scan_snapshots_def ListObjectsV2Pages_def
          example_store_def listed_def example_objects_def page_callback_def)
  have r: "fst ?ls = JSON 200 (H_latest
        ''https://s3.example.org/snapshots/btc/mainnet/2024-02-01T00-00-00.tar.gz''
        200 1706745600)"
    by (simp add: latestSnapshot_def scan_snapshots_def ListObjectsV2Pages_def
          example_store_def listed_def example_objects_def page_callback_def example_config_def)
  have s: "fst (scan_snapshots example_store example_config ''btc'' ''mainnet'') =
     Some \<lparr>Key = ''btc/mainnet/2024-02-01T00-00-00.tar.gz'', LastModified = 1706745600,
            Size = 200\<rparr>"
    by (simp add: scan_snapshots_def ListObjectsV2Pages_def example_store_def listed_def
          example_objects_def page_callback_def)
  from inst [THEN conjunct1] inst [THEN conjunct2, THEN conjunct2, THEN conjunct1]
  have e1: "list_all (\<lambda>r. sint (req_expire r) = 900000000000) (snd ?lf)"
    by (simp add: list_all_iff)
  from inst [THEN conjunct2, THEN conjunct1] inst [THEN conjunct2, THEN conjunct2, THEN conjunct1]
  have e2: "list_all (\<lambda>r. sint (req_expire r) = 900000000000) (snd ?ls)"
    by (simp add: list_all_iff)
  from inst [THEN conjunct2, THEN conjunct2, THEN conjunct2, THEN conjunct2, rule_format, OF r] s
  have p: "Presign example_store ''snapshots'' ''btc/mainnet/2024-02-01T00-00-00.tar.gz''
             (15 * Minute) =
     Inr ''https://s3.example.org/snapshots/btc/mainnet/2024-02-01T00-00-00.tar.gz''"
    by (auto simp: example_config_def)
  from n1 n2 r e1 e2 p show ?thesis by simp
qed

section \<open>Facts about listKeys\<close>

text \<open>
  The keys of \<open>dirMap\<close> after the loop are those before it and the first two pieces,
  joined, of every object key with at least two pieces; and no key is there twice.
\<close>

lemma dirMap_loop_keys:
  "set (map fst (dirMap_loop items dirMap)) =
     set (map fst dirMap) \<union>
     (\<lambda>key. Split key CHR ''/'' ! 0 @ ''/'' @ Split key CHR ''/'' ! 1) `
       {key \<in> Key ` set items. 2 \<le> length (Split key CHR ''/'')}"
proof (induction items arbitrary: dirMap)
  case Nil
  then show ?case by simp
next
  case (Cons item items)
  show ?case
  proof (cases "2 \<le> length (Split (Key item) CHR ''/'')")
    case True
    have "{key \<in> Key ` set (item # items). 2 \<le> length (Split key CHR ''/'')} =
          insert (Key item) {key \<in> Key ` set items. 2 \<le> length (Split key CHR ''/'')}"
      using True by auto
    with True Cons.IH show ?thesis by (simp add: Let_def dom_update)
  next
    case False
    have "{key \<in> Key ` set (item # items). 2 \<le> length (Split key CHR ''/'')} =
          {key \<in> Key ` set items. 2 \<le> length (Split key CHR ''/'')}"
      using False by auto
    with False Cons.IH show ?thesis by (simp add: Let_def)
  qed
qed

lemma dirMap_loop_distinct:
  "distinct (map fst dirMap) \<Longrightarrow> distinct (map fst (dirMap_loop items dirMap))"
  by (induction items arbitrary: dirMap) (simp_all add: Let_def distinct_update)

text \<open>The map and the directories of the example bucket.\<close>

lemma example_dirMap:
  "dirMap_loop example_objects [] = [(''btc/mainnet'', True), (''eth/testnet'', True)]"
  by (simp add: example_objects_def Let_def)

lemma example_keys:
  "(\<lambda>key. Split key CHR ''/'' ! 0 @ ''/'' @ Split key CHR ''/'' ! 1) `
      {key \<in> Key ` set example_objects. 2 \<le> length (Split key CHR ''/'')}
    = {''btc/mainnet'', ''eth/testnet''}"
proof -
  have "set (map fst (dirMap_loop example_objects [])) = {''btc/mainnet'', ''eth/testnet''}"
    by (simp only: example_dirMap) simp
  then show ?thesis
    by (simp only: dirMap_loop_keys [of example_objects "[]"] list.map set_simps Un_empty_left)
qed

section \<open>Claims about listKeys\<close>

text \<open>
  C6. \<open>listKeys\<close> always answers, with status 200, and what it answers is a list without
  duplicates whose elements are exactly the strings \<open>segment0/segment1\<close> of the listed
  object keys that \<^verbatim>\<open>strings.Split\<close> cuts at \<open>/\<close> into two pieces or more (by
  \<open>Split_two_iff\<close>, the keys that hold a \<open>/\<close>); a key with fewer pieces adds nothing.
\<close>

theorem listKeys_distinct_namespaces:
  assumes "ListObjectsV2 s3Svc (BucketName config) None = (resp, err)"
  shows "(\<exists>out :: 'j response. listKeys s3Svc config out) \<and>
         (\<forall>out :: 'j response. listKeys s3Svc config out \<longrightarrow>
            (\<exists>dirs. out = JSON StatusOK (H_dirs dirs) \<and> distinct dirs \<and>
               set dirs =
                 (\<lambda>key. Split key CHR ''/'' ! 0 @ ''/'' @ Split key CHR ''/'' ! 1) `
                   {key \<in> Key ` set (Contents resp). 2 \<le> length (Split key CHR ''/'')}))"
proof (intro conjI allI impI)
  let ?m = "dirMap_loop (Contents resp) []"
  have "distinct (map fst ?m)" by (rule dirMap_loop_distinct) simp
  then have "listKeys s3Svc config (JSON StatusOK (H_dirs (map fst ?m)) :: 'j response)"
    using assms by (simp add: listKeys_def range_keys_def)
  then show "\<exists>out :: 'j response. listKeys s3Svc config out" ..
next
  fix out :: "'j response"
  assume out: "listKeys s3Svc config out"
  let ?m = "dirMap_loop (Contents resp) []"
  from out assms obtain dirs where "out = JSON StatusOK (H_dirs dirs)" "range_keys ?m dirs"
    by (auto simp: listKeys_def split: response.splits body.splits)
  moreover from this have "distinct dirs" "set dirs = set (map fst ?m)"
    by (simp_all add: range_keys_def)
  ultimately show "\<exists>dirs. out = JSON StatusOK (H_dirs dirs) \<and> distinct dirs \<and>
               set dirs =
                 (\<lambda>key. Split key CHR ''/'' ! 0 @ ''/'' @ Split key CHR ''/'' ! 1) `
                   {key \<in> Key ` set (Contents resp). 2 \<le> length (Split key CHR ''/'')}"
    using dirMap_loop_keys [of "Contents resp" "[]"] by simp
qed

theorem listKeys_distinct_namespaces_witness:
  "ListObjectsV2 example_store (BucketName example_config) None
     = (\<lparr>Contents = example_objects\<rparr>, None) \<and>
   listKeys example_store example_config
     (JSON 200 (H_dirs [''btc/mainnet'', ''eth/testnet'']) :: string response) \<and>
   listKeys example_store example_config
     (JSON 200 (H_dirs [''eth/testnet'', ''btc/mainnet'']) :: string response) \<and>
   \<not> listKeys example_store example_config
     (JSON 200 (H_dirs [''btc/mainnet'', ''eth/testnet'', ''btc/mainnet'']) :: string response) \<and>
   \<not> listKeys example_store example_config
     (JSON 200 (H_dirs [''btc/mainnet'', ''eth/testnet'', ''README'']) :: string response) \<and>
   \<not> listKeys example_store example_config
     (JSON 200 (H_dirs [''btc/mainnet'']) :: string response)"
proof -
  have a: "ListObjectsV2 example_store (BucketName example_config) None
     = (\<lparr>Contents = example_objects\<rparr>, None)"
    by (simp add: example_store_def listed_def)
  note inst = listKeys_distinct_namespaces [OF a, where ?'j = string, THEN conjunct2, rule_format]
  have p1: "listKeys example_store example_config
     (JSON 200 (H_dirs [''btc/mainnet'', ''eth/testnet'']) :: string response)"
    by (simp add: listKeys_def a example_dirMap range_keys_def)
  have p2: "listKeys example_store example_config
     (JSON 200 (H_dirs [''eth/testnet'', ''btc/mainnet'']) :: string response)"
    by (simp add: listKeys_def a example_dirMap range_keys_def insert_commute)
  have n1: "\<not> listKeys example_store example_config
     (JSON 200 (H_dirs [''btc/mainnet'', ''eth/testnet'', ''btc/mainnet'']) :: string response)"
  proof
    assume "listKeys example_store example_config
     (JSON 200 (H_dirs [''btc/mainnet'', ''eth/testnet'', ''btc/mainnet'']) :: string response)"
    from inst [OF this] obtain dirs where
      "dirs = [''btc/mainnet'', ''eth/testnet'', ''btc/mainnet'']" "distinct dirs"
      by auto
    then show False by simp
  qed
  have n2: "\<not> listKeys example_store example_config
     (JSON 200 (H_dirs [''btc/mainnet'', ''eth/testnet'', ''README'']) :: string response)"
  proof
    assume "listKeys example_store example_config
     (JSON 200 (H_dirs [''btc/mainnet'', ''eth/testnet'', ''README'']) :: string response)"
    from inst [OF this] obtain dirs where
      d1: "dirs = [''btc/mainnet'', ''eth/testnet'', ''README'']" and
      d2: "set dirs = (\<lambda>key. Split key CHR ''/'' ! 0 @ ''/'' @ Split key CHR ''/'' ! 1) `
         {key \<in> Key ` set (Contents \<lparr>Contents = example_objects\<rparr>).
            2 \<le> length (Split key CHR ''/'')}"
      by auto
    from d2 have d3: "set dirs = {''btc/mainnet'', ''eth/testnet''}"
      by (simp only: ListObjectsV2Output.select_convs example_keys)
    have "''README'' \<in> set dirs" using d1 by simp
    then have "''README'' \<in> {''btc/mainnet'', ''eth/testnet''}" unfolding d3 .
    then show False by simp
  qed
  have n3: "\<not> listKeys example_store example_config
     (JSON 200 (H_dirs [''btc/mainnet'']) :: string response)"
  proof
    assume "listKeys example_store example_config
     (JSON 200 (H_dirs [''btc/mainnet'']) :: string response)"
    from inst [OF this] obtain dirs where
      d1: "dirs = [''btc/mainnet'']" and
      d2: "set dirs = (\<lambda>key. Split key CHR ''/'' ! 0 @ ''/'' @ Split key CHR ''/'' ! 1) `
         {key \<in> Key ` set (Contents \<lparr>Contents = example_objects\<rparr>).
            2 \<le> length (Split key CHR ''/'')}"
      by auto
    from d2 have d3: "set dirs = {''btc/mainnet'', ''eth/testnet''}"
      by (simp only: ListObjectsV2Output.select_convs example_keys)
    have "''eth/testnet'' \<in> {''btc/mainnet'', ''eth/testnet''}" by simp
    then have "''eth/testnet'' \<in> set dirs" unfolding d3 .
    then show False using d1 by simp
  qed
  from a p1 p2 n1 n2 n3 show ?thesis by simp
qed

text \<open>
  C7. The handler drops the error of the listing (\<^verbatim>\<open>resp, _ :=\<close>, main.go:149): when
  the store cannot be reached, it answers 200 with an empty list of directories, and it
  can answer nothing else.
\<close>

theorem listKeys_drops_listing_error:
  "ListObjectsV2 unavailable_store (BucketName example_config) None
     = (\<lparr>Contents = []\<rparr>, Some request_error) \<and>
   {out :: string response. listKeys unavailable_store example_config out}
     = {JSON 200 (H_dirs [])}"
proof -
  have a: "ListObjectsV2 unavailable_store (BucketName example_config) None
     = (\<lparr>Contents = []\<rparr>, Some request_error)"
    by (simp add: unavailable_store_def)
  have "listKeys unavailable_store example_config out \<longleftrightarrow> out = JSON 200 (H_dirs [])"
    for out :: "string response"
  proof (cases out)
    case (JSON code b)
    then show ?thesis
      by (cases b) (auto simp: listKeys_def a range_keys_def)
  qed
  with a show ?thesis by auto
qed

section \<open>Claims about snapshotInfo\<close>

text \<open>
  C5, as the handler has it. A failed \<^verbatim>\<open>GetObject\<close> is answered 404 with the message
  \<open>Snapshot not found\<close> exactly when the error carries the code \<open>NoSuchKey\<close>, whatever
  its text. Every other failure is answered alike, with status 500 and the text of the
  error: another error of \<^verbatim>\<open>GetObject\<close>, a body that cannot be read to its end, and
  a body that does not parse. A body that parses is answered 200 with the document.
\<close>

theorem snapshotInfo_classification:
  assumes "GetObject svc (BucketName config)
             (protocol @ ''/'' @ network @ ''/snapshot-latest.json'') = got"
  shows "(\<forall>e. got = Inl e \<and> Code e = Some ErrCodeNoSuchKey \<longrightarrow>
            snapshotInfo svc config Unmarshal protocol network =
              JSON StatusNotFound (H_message ''Snapshot not found'')) \<and>
         (\<forall>e. got = Inl e \<and> Code e \<noteq> Some ErrCodeNoSuchKey \<longrightarrow>
            snapshotInfo svc config Unmarshal protocol network =
              JSON StatusInternalServerError (H_error (Error e))) \<and>
         (\<forall>e. got = Inr (Inl e) \<longrightarrow>
            snapshotInfo svc config Unmarshal protocol network =
              JSON StatusInternalServerError (H_error (Error e))) \<and>
         (\<forall>body e. got = Inr (Inr body) \<and> Unmarshal body = Inl e \<longrightarrow>
            snapshotInfo svc config Unmarshal protocol network =
              JSON StatusInternalServerError (H_error (Error e))) \<and>
         (\<forall>body data. got = Inr (Inr body) \<and> Unmarshal body = Inr data \<longrightarrow>
            snapshotInfo svc config Unmarshal protocol network = JSON StatusOK (Data data))"
  using assms by (auto simp: snapshotInfo_def)

theorem snapshotInfo_classification_witness:
  "snapshotInfo example_store example_config example_Unmarshal ''sol'' ''devnet'' =
     JSON 404 (H_message ''Snapshot not found'') \<and>
   snapshotInfo unavailable_store example_config example_Unmarshal ''btc'' ''mainnet'' =
     JSON 500 (H_error ''RequestError: send request failed'') \<and>
   snapshotInfo dropped_store example_config example_Unmarshal ''btc'' ''mainnet'' =
     JSON 500 (H_error ''unexpected EOF'') \<and>
   snapshotInfo malformed_store example_config example_Unmarshal ''btc'' ''mainnet'' =
     JSON 500 (H_error ''unexpected end of JSON input'') \<and>
   snapshotInfo example_store example_config example_Unmarshal ''btc'' ''mainnet'' =
     JSON 200 (Data ''{}'')"
proof -
  have a: "GetObject example_store (BucketName example_config)
             (''sol'' @ ''/'' @ ''devnet'' @ ''/snapshot-latest.json'') =
           Inl \<lparr>Error = ''NoSuchKey: The specified key does not exist.'',
                 Code = Some ''NoSuchKey''\<rparr>"
    by (simp add: example_store_def example_objects_def)
  have b: "GetObject unavailable_store (BucketName example_config)
             (''btc'' @ ''/'' @ ''mainnet'' @ ''/snapshot-latest.json'') = Inl request_error"
    by (simp add: unavailable_store_def)
  have c: "GetObject dropped_store (BucketName example_config)
             (''btc'' @ ''/'' @ ''mainnet'' @ ''/snapshot-latest.json'') =
           Inr (Inl \<lparr>Error = ''unexpected EOF'', Code = None\<rparr>)"
    by (simp add: dropped_store_def)
  have d: "GetObject malformed_store (BucketName example_config)
             (''btc'' @ ''/'' @ ''mainnet'' @ ''/snapshot-latest.json'') = Inr (Inr ''{'')"
    by (simp add: malformed_store_def)
  have e: "GetObject example_store (BucketName example_config)
             (''btc'' @ ''/'' @ ''mainnet'' @ ''/snapshot-latest.json'') = Inr (Inr ''{}'')"
    by (simp add: example_store_def example_objects_def)
  have 1: "snapshotInfo example_store example_config example_Unmarshal ''sol'' ''devnet'' =
     JSON 404 (H_message ''Snapshot not found'')"
    using snapshotInfo_classification [OF a, of example_Unmarshal, THEN conjunct1]
    by (simp add: ErrCodeNoSuchKey_def)
  have 2: "snapshotInfo unavailable_store example_config example_Unmarshal ''btc'' ''mainnet'' =
     JSON 500 (H_error ''RequestError: send request failed'')"
    using snapshotInfo_classification [OF b, of example_Unmarshal, THEN conjunct2, THEN conjunct1]
    by (simp add: ErrCodeNoSuchKey_def request_error_def)
  have 3: "snapshotInfo dropped_store example_config example_Unmarshal ''btc'' ''mainnet'' =
     JSON 500 (H_error ''unexpected EOF'')"
    using snapshotInfo_classification [OF c, of example_Unmarshal, THEN conjunct2, THEN conjunct2,
            THEN conjunct1]
    by simp
  have 4: "snapshotInfo malformed_store example_config example_Unmarshal ''btc'' ''mainnet'' =
     JSON 500 (H_error ''unexpected end of JSON input'')"
    using snapshotInfo_classification [OF d, of example_Unmarshal, THEN conjunct2, THEN conjunct2,
            THEN conjunct2, THEN conjunct1]
    by (simp add: example_Unmarshal_def)
  have 5: "snapshotInfo example_store example_config example_Unmarshal ''btc'' ''mainnet'' =
     JSON 200 (Data ''{}'')"
    using snapshotInfo_classification [OF e, of example_Unmarshal, THEN conjunct2, THEN conjunct2,
            THEN conjunct2, THEN conjunct2]
    by (simp add: example_Unmarshal_def)
  from 1 2 3 4 5 show ?thesis by simp
qed

text \<open>
  C5 as it is written fails: a body that does not parse is answered as a store
  that cannot be reached is, with status 500 and the text of the error under
  \<^verbatim>\<open>"error"\<close>; the handler marks neither as a kind of its own.
\<close>

theorem snapshotInfo_malformed_not_distinct:
  "GetObject malformed_store (BucketName example_config) ''btc/mainnet/snapshot-latest.json''
     = Inr (Inr ''{'') \<and>
   example_Unmarshal ''{'' = Inl \<lparr>Error = ''unexpected end of JSON input'', Code = None\<rparr> \<and>
   snapshotInfo malformed_store example_config example_Unmarshal ''btc'' ''mainnet'' =
     JSON 500 (H_error ''unexpected end of JSON input'') \<and>
   GetObject unavailable_store (BucketName example_config) ''btc/mainnet/snapshot-latest.json''
     = Inl \<lparr>Error = ''RequestError: send request failed'', Code = Some ''RequestError''\<rparr> \<and>
   snapshotInfo unavailable_store example_config example_Unmarshal ''btc'' ''mainnet'' =
     JSON 500 (H_error ''RequestError: send request failed'')"
  by (simp add: snapshotInfo_def malformed_store_def unavailable_store_def request_error_def
        example_Unmarshal_def ErrCodeNoSuchKey_def)

end
